theory Spec2Isabelle
  imports Main
begin

section \<open>Error values\<close>

text \<open>
  A Go \<^verbatim>\<open>error\<close> is an interface value. The handlers of package \<^verbatim>\<open>handlers\<close> see four
  shapes of it:
  \<^item> the three sentinel values of package \<^verbatim>\<open>products\<close>, compared by identity
    (\<^verbatim>\<open>switch err { case products.ErrNotFound: ... }\<close>);
  \<^item> an error that only has a message (what \<^verbatim>\<open>errors.New\<close> builds, and any other
    foreign error value); it is never identical to a sentinel, whatever its text;
  \<^item> an error decorated with a message by \<^verbatim>\<open>errors.Wrap\<close> or \<^verbatim>\<open>errors.Wrapf\<close>
    (the format and its arguments are kept as they are passed);
  \<^item> an error annotated with an HTTP status by \<^verbatim>\<open>web.WrapErrorWithStatus\<close>.
\<close>

datatype error =
    ErrNotFound
  | ErrInvalidID
  | ErrForbidden
  | Fundamental string
  | WithMessage error string "string list"
  | StatusError error nat

definition errors_New :: "string \<Rightarrow> error" where
  "errors_New message = Fundamental message"

definition errors_Wrap :: "error \<Rightarrow> string \<Rightarrow> error" where
  "errors_Wrap err message = WithMessage err message []"

definition errors_Wrapf :: "error \<Rightarrow> string \<Rightarrow> string list \<Rightarrow> error" where
  "errors_Wrapf err format args = WithMessage err format args"

text \<open>
  Modelled from the spec: \<^verbatim>\<open>web.WrapErrorWithStatus\<close> of package
  \<^verbatim>\<open>internal/platform/web\<close>. The glossary calls its result a classified error: "an error
  annotated with an explicit response status code for the boundary layer to use directly".
\<close>

definition web_WrapErrorWithStatus :: "error \<Rightarrow> nat \<Rightarrow> error" where
  "web_WrapErrorWithStatus err status = StatusError err status"

abbreviation StatusOK :: nat where "StatusOK \<equiv> 200"
abbreviation StatusCreated :: nat where "StatusCreated \<equiv> 201"
abbreviation StatusNoContent :: nat where "StatusNoContent \<equiv> 204"
abbreviation StatusBadRequest :: nat where "StatusBadRequest \<equiv> 400"
abbreviation StatusForbidden :: nat where "StatusForbidden \<equiv> 403"
abbreviation StatusNotFound :: nat where "StatusNotFound \<equiv> 404"
abbreviation StatusInternalServerError :: nat where "StatusInternalServerError \<equiv> 500"

section \<open>The product handlers\<close>

text \<open>
  A handler either returns an error, or ends in \<^verbatim>\<open>return web.Respond(ctx, w, v, status)\<close>,
  where \<open>v\<close> is \<^verbatim>\<open>nil\<close> for the responses without a body.
\<close>

datatype 'v handled =
    Returned error
  | Respond "'v option" nat

text \<open>
  What a handler reads from its request: the URL parameter \<^verbatim>\<open>chi.URLParam(r, "id")\<close>, the
  claims \<^verbatim>\<open>ctx.Value(auth.Key).(auth.Claims)\<close> (\<open>None\<close> when the type assertion fails) and
  the body handed to \<^verbatim>\<open>web.Decode\<close>.
\<close>

record 'c request =
  url_id :: string
  ctx_claims :: "'c option"
  body :: string

text \<open>
  The domain functions of package \<^verbatim>\<open>products\<close> and \<^verbatim>\<open>web.Decode\<close> are not part of the
  handlers: each handler takes them as parameters (with the database handle, the context
  and \<^verbatim>\<open>time.Now()\<close> already supplied). A domain function returns its value or an error,
  \<^verbatim>\<open>web.Decode\<close> the decoded value or an error.
\<close>

definition Products_List :: "(error + 'l) \<Rightarrow> 'l handled" where
  "Products_List products_List =
     (case products_List of
        Inl err \<Rightarrow> Returned (errors_Wrap err ''getting product list'')
      | Inr list \<Rightarrow> Respond (Some list) StatusOK)"

definition Products_Create ::
  "('c \<Rightarrow> 'n \<Rightarrow> error + 'p) \<Rightarrow> (string \<Rightarrow> error + 'n) \<Rightarrow> 'c request \<Rightarrow> 'p handled" where
  "Products_Create products_Create web_Decode r =
     (case web_Decode (body r) of
        Inl err \<Rightarrow> Returned (errors_Wrap err ''decoding new product'')
      | Inr np \<Rightarrow>
          (case ctx_claims r of
             None \<Rightarrow> Returned (errors_New ''claims missing from context'')
           | Some claims \<Rightarrow>
               (case products_Create claims np of
                  Inl err \<Rightarrow> Returned (errors_Wrap err ''creating new product'')
                | Inr p \<Rightarrow> Respond (Some p) StatusCreated)))"

definition Products_Get :: "(string \<Rightarrow> error + 'p) \<Rightarrow> 'c request \<Rightarrow> 'p handled" where
  "Products_Get products_Get r =
     (let pid = url_id r in
      case products_Get pid of
        Inl err \<Rightarrow>
          (if err = ErrNotFound then Returned (web_WrapErrorWithStatus err StatusNotFound)
           else if err = ErrInvalidID then Returned (web_WrapErrorWithStatus err StatusBadRequest)
           else Returned (errors_Wrapf err ''getting product %q'' [pid]))
      | Inr p \<Rightarrow> Respond (Some p) StatusOK)"

definition Products_Update ::
  "('c \<Rightarrow> string \<Rightarrow> 'u \<Rightarrow> error option) \<Rightarrow> (string \<Rightarrow> error + 'u) \<Rightarrow> 'c request \<Rightarrow> 'v handled" where
  "Products_Update products_Update web_Decode r =
     (let pid = url_id r in
      case web_Decode (body r) of
        Inl err \<Rightarrow> Returned (errors_Wrap err ''decoding product update'')
      | Inr update \<Rightarrow>
          (case ctx_claims r of
             None \<Rightarrow> Returned (errors_New ''claims missing from context'')
           | Some claims \<Rightarrow>
               (case products_Update claims pid update of
                  Some err \<Rightarrow>
                    (if err = ErrNotFound then Returned (web_WrapErrorWithStatus err StatusNotFound)
                     else if err = ErrInvalidID then Returned (web_WrapErrorWithStatus err StatusBadRequest)
                     else if err = ErrForbidden then Returned (web_WrapErrorWithStatus err StatusForbidden)
                     else Returned (errors_Wrapf err ''updating product %q'' [pid]))
                | None \<Rightarrow> Respond None StatusNoContent)))"

definition Products_Delete :: "(string \<Rightarrow> error option) \<Rightarrow> 'c request \<Rightarrow> 'v handled" where
  "Products_Delete products_Delete r =
     (let pid = url_id r in
      case products_Delete pid of
        Some err \<Rightarrow>
          (if err = ErrInvalidID then Returned (web_WrapErrorWithStatus err StatusBadRequest)
           else Returned (errors_Wrapf err ''deleting product %q'' [pid]))
      | None \<Rightarrow> Respond None StatusNoContent)"

definition Products_AddSale ::
  "('n \<Rightarrow> string \<Rightarrow> error + 's) \<Rightarrow> (string \<Rightarrow> error + 'n) \<Rightarrow> 'c request \<Rightarrow> 's handled" where
  "Products_AddSale products_AddSale web_Decode r =
     (case web_Decode (body r) of
        Inl err \<Rightarrow> Returned (errors_Wrap err ''decoding new sale'')
      | Inr ns \<Rightarrow>
          (let productID = url_id r in
           case products_AddSale ns productID of
             Inl err \<Rightarrow> Returned (errors_Wrap err ''adding new sale'')
           | Inr sale \<Rightarrow> Respond (Some sale) StatusCreated))"

definition Products_ListSales :: "(string \<Rightarrow> error + 'l) \<Rightarrow> 'c request \<Rightarrow> 'l handled" where
  "Products_ListSales products_ListSales r =
     (let pid = url_id r in
      case products_ListSales pid of
        Inl err \<Rightarrow> Returned (errors_Wrap err ''getting sales list'')
      | Inr list \<Rightarrow> Respond (Some list) StatusOK)"

section \<open>Classification at the handler adapter\<close>

text \<open>
  Modelled from the spec: the error below the messages decorated around it. The rationale
  of section 4.3 and sections 8 and 9 make classification "insensitive to wrapped-error
  decoration added for diagnostics": every step of the classifier looks at this error, not
  at the decorations of \<^verbatim>\<open>errors.Wrap\<close> and \<^verbatim>\<open>errors.Wrapf\<close>.
\<close>

fun cause :: "error \<Rightarrow> error" where
  "cause (WithMessage err format args) = cause err"
| "cause err = err"

text \<open>
  Modelled from the spec: the status an error carries, for step 4 of section 4.3 ("if
  \<open>err\<close> already carries an explicit status code (pre-classified by an inner layer, e.g. a
  decode failure), use that code verbatim"). The handlers decorate a decode failure with
  \<^verbatim>\<open>errors.Wrap\<close> before they return it, and section 7 keeps decode failures InvalidInput,
  so the status is looked for below the message decorations; a sentinel or a bare message
  carries none.
\<close>

fun carried_status :: "error \<Rightarrow> nat option" where
  "carried_status (StatusError err status) = Some status"
| "carried_status (WithMessage err format args) = carried_status err"
| "carried_status err = None"

text \<open>
  Modelled from the spec: \<^verbatim>\<open>Classify\<close> of section 4.3, the classifier of package
  \<^verbatim>\<open>internal/platform/web\<close> that the handler adapter applies to the error a handler
  returns. The five steps are tried in order and the first match wins. Steps 1 to 3
  compare the error below the decorations with the sentinel values, step 4 takes the status
  that error carries, step 5 is the default.
\<close>

definition Classify :: "error \<Rightarrow> nat" where
  "Classify err =
     (if cause err = ErrNotFound then StatusNotFound
      else if cause err = ErrInvalidID then StatusBadRequest
      else if cause err = ErrForbidden then StatusForbidden
      else case carried_status err of
             Some status \<Rightarrow> status
           | None \<Rightarrow> StatusInternalServerError)"

text \<open>
  Modelled from the spec: the handler adapter of section 4.4. When the handler returns an
  error the adapter writes the response with the status \<open>Classify\<close> gives; when the handler
  ends in \<^verbatim>\<open>web.Respond\<close> the adapter writes no error response.
\<close>

definition error_status :: "'v handled \<Rightarrow> nat option" where
  "error_status h = (case h of Returned err \<Rightarrow> Some (Classify err) | Respond v status \<Rightarrow> None)"

text \<open>
  An error decorated with contextual messages, the innermost first: what a layer that
  calls \<^verbatim>\<open>errors.Wrap\<close> on its way out makes of \<open>err\<close>.
\<close>

definition decorated :: "error \<Rightarrow> string list \<Rightarrow> error" where
  "decorated err messages = foldl errors_Wrap err messages"

section \<open>The process: cmd/salesapi/main.go\<close>

record DB_config =
  User :: string
  Password :: string
  Host :: string
  Name :: string
  DisableTLS :: bool

record HTTP_config =
  Address :: string

record config =
  DB :: DB_config
  HTTP :: HTTP_config

text \<open>
  \<^verbatim>\<open>json.NewEncoder(os.Stdout).Encode(cfg)\<close>: the exported fields in the order of their
  declaration under their Go names, the field tagged \<^verbatim>\<open>json:"-"\<close> left out, and a newline
  after the value. The encoder of a string value belongs to \<^verbatim>\<open>encoding/json\<close> and is a
  parameter.
\<close>

definition json_bool :: "bool \<Rightarrow> string" where
  "json_bool b = (if b then ''true'' else ''false'')"

definition json_Encode :: "(string \<Rightarrow> string) \<Rightarrow> config \<Rightarrow> string" where
  \<open>json_Encode json_string cfg =
     ''{"DB":{"User":'' @ json_string (User (DB cfg)) @
     '',"Host":'' @ json_string (Host (DB cfg)) @
     '',"Name":'' @ json_string (Name (DB cfg)) @
     '',"DisableTLS":'' @ json_bool (DisableTLS (DB cfg)) @
     ''},"HTTP":{"Address":'' @ json_string (Address (HTTP cfg)) @
     ''}}'' @ [CHR 0x0A]\<close>

text \<open>
  The \<^verbatim>\<open>url.URL\<close> handed to \<^verbatim>\<open>sqlx.Connect\<close>: scheme, user name and password, host,
  path, and the query values by key.
\<close>

datatype url = URL string "string \<times> string" string string "(string \<times> string list) list"

text \<open>What the process does to the outside, in the order it does it.\<close>

datatype action =
    Print string
  | Fatalf string
  | Stdout string
  | Flag_error string
  | PrintDefaults
  | Envconfig_Usage
  | Connect url
  | ListenAndServe string
  | Notify
  | Shutdown int
  | Close
  | Cancel
  | DB_Close

text \<open>
  \<open>Print\<close> is a line of \<^verbatim>\<open>log.Print\<close> or \<^verbatim>\<open>log.Printf\<close>; \<open>Fatalf\<close> a line of
  \<^verbatim>\<open>log.Fatalf\<close>, which then calls \<^verbatim>\<open>os.Exit(1)\<close> and runs no deferred call; \<open>Stdout\<close>
  bytes the program writes to standard output; \<open>Flag_error\<close> the message package
  \<^verbatim>\<open>flag\<close> writes to standard error for arguments it cannot parse (not a line of the
  log); \<open>PrintDefaults\<close> and \<open>Envconfig_Usage\<close> the calls \<^verbatim>\<open>flag.PrintDefaults()\<close> and
  \<^verbatim>\<open>envconfig.Usage(name, &config{})\<close>, which print to standard output;
  \<open>ListenAndServe\<close> the goroutine started on the server with that address; \<open>Shutdown\<close> the
  call of \<^verbatim>\<open>server.Shutdown\<close> with a context of that timeout in nanoseconds; \<open>Cancel\<close> and
  \<open>DB_Close\<close> the deferred \<^verbatim>\<open>cancel()\<close> and \<^verbatim>\<open>db.Close()\<close>.
\<close>

datatype signal = Interrupt | SIGTERM

datatype event =
    ServerError string
  | OsSignal signal

text \<open>
  How the process ends: \<^verbatim>\<open>os.Exit\<close> with a status (a return from \<^verbatim>\<open>main\<close> is status
  0), killed by the SIGPIPE of a write to a closed standard output, or never, blocked in the
  \<^verbatim>\<open>select\<close> statement.
\<close>

datatype outcome = Exit nat | Killed | Blocked

text \<open>
  What \<^verbatim>\<open>flag.Parse()\<close> makes of the arguments: the flags are parsed, with the value of
  \<^verbatim>\<open>-config-only\<close>; or help is asked for (\<^verbatim>\<open>-h\<close>, \<^verbatim>\<open>-help\<close>), and \<^verbatim>\<open>flag.Parse\<close> calls
  \<^verbatim>\<open>flag.Usage\<close> and exits with status 0; or an argument cannot be parsed, and
  \<^verbatim>\<open>flag.Parse\<close> writes its message, calls \<^verbatim>\<open>flag.Usage\<close> and exits with status 2.
\<close>

datatype flags =
    Parsed bool
  | Help
  | Bad_flag string

text \<open>
  What becomes of the encoder's write to standard output: all is written; or the write
  returns an error after some bytes (the number that got out, and the error's text); or
  standard output is a closed pipe, and the runtime lets SIGPIPE kill the process, the
  program not being notified of that signal.
\<close>

datatype stdout_write =
    Written
  | Write_error nat string
  | Broken_pipe nat

text \<open>
  What the process meets: the result of \<^verbatim>\<open>flag.Parse\<close>, of \<^verbatim>\<open>envconfig.Process\<close> (the text
  of its error, or the configuration), of the encoder's write to standard output, of
  \<^verbatim>\<open>sqlx.Connect\<close>, what the \<^verbatim>\<open>select\<close> statement receives (\<open>None\<close> when neither channel ever
  delivers), and the results of \<^verbatim>\<open>server.Shutdown\<close> (by the timeout of its context) and
  \<^verbatim>\<open>server.Close\<close>. An error is its text, as \<^verbatim>\<open>%s\<close> prints it. The lines of the log and
  the usage text are taken to get out, and no signal other than the two the process is
  notified of (and the SIGPIPE above) ends it.
\<close>

record environment =
  flag_Parse :: flags
  envconfig_Process :: "string + config"
  stdout_Encode :: stdout_write
  sqlx_Connect :: "string option"
  select_receives :: "event option"
  server_Shutdown :: "int \<Rightarrow> string option"
  server_Close :: "string option"

definition Second :: int where
  "Second = 1000000000"

definition timeout :: int where
  "timeout = 15 * Second"

text \<open>
  \<^verbatim>\<open>flag.Usage\<close> as the program sets it: a header, the defaults of the flags (the output of
  package \<^verbatim>\<open>flag\<close> set to standard output first), a second header and the usage of the
  configuration.
\<close>

definition flag_Usage :: "action list" where
  "flag_Usage =
     [Stdout (''This daemon is a service which manages products.'' @ [CHR 0x0A, CHR 0x0A] @
              ''Usage of sales-api:'' @ [CHR 0x0A, CHR 0x0A] @
              ''sales-api [flags]'' @ [CHR 0x0A, CHR 0x0A]),
      PrintDefaults,
      Stdout ([CHR 0x0A] @ ''Configuration:'' @ [CHR 0x0A, CHR 0x0A]),
      Envconfig_Usage]"

text \<open>The branch \<^verbatim>\<open>case <-osSignals:\<close> of the \<^verbatim>\<open>select\<close> statement.\<close>

definition shutting_down :: "environment \<Rightarrow> action list" where
  "shutting_down env =
     [Print ''caught signal, shutting down'', Shutdown timeout] @
     (case server_Shutdown env timeout of
        Some err \<Rightarrow>
          [Print (''error: gracefully shutting down server: '' @ err), Close] @
          (case server_Close env of
             Some err' \<Rightarrow> [Print (''error: closing server: '' @ err')]
           | None \<Rightarrow> [])
      | None \<Rightarrow> [])"

definition main :: "(string \<Rightarrow> string) \<Rightarrow> environment \<Rightarrow> action list \<times> outcome" where
  "main json_string env =
     (case flag_Parse env of
        Help \<Rightarrow> (flag_Usage, Exit 0)
      | Bad_flag message \<Rightarrow> (Flag_error message # flag_Usage, Exit 2)
      | Parsed configOnly \<Rightarrow>
     (case envconfig_Process env of
        Inl err \<Rightarrow> ([Fatalf (''error: parsing config: '' @ err)], Exit 1)
      | Inr cfg \<Rightarrow>
          if configOnly then
            (case stdout_Encode env of
               Written \<Rightarrow> ([Stdout (json_Encode json_string cfg)], Exit 0)
             | Write_error n err \<Rightarrow>
                 ([Stdout (take n (json_Encode json_string cfg)),
                   Fatalf (''error: encoding config as json: '' @ err)], Exit 1)
             | Broken_pipe n \<Rightarrow> ([Stdout (take n (json_Encode json_string cfg))], Killed))
          else
            (let sslMode = (if DisableTLS (DB cfg) then ''disable'' else ''require'');
                 u = URL ''postgres'' (User (DB cfg), Password (DB cfg)) (Host (DB cfg))
                       (Name (DB cfg)) [(''sslmode'', [sslMode]), (''timezone'', [''utc''])]
             in case sqlx_Connect env of
                  Some err \<Rightarrow> ([Connect u, Fatalf (''error: connecting to db: '' @ err)], Exit 1)
                | None \<Rightarrow>
                    (let started = [Connect u, ListenAndServe (Address (HTTP cfg)), Notify,
                                    Print ''startup complete'']
                     in case select_receives env of
                          None \<Rightarrow> (started, Blocked)
                        | Some (ServerError err) \<Rightarrow>
                            (started @ [Fatalf (''error: listening and serving: '' @ err)], Exit 1)
                        | Some (OsSignal sig) \<Rightarrow>
                            (started @ shutting_down env @ [Print ''done'', Cancel, DB_Close],
                             Exit 0)))))"

text \<open>
  The configuration \<^verbatim>\<open>envconfig.Process\<close> yields in an empty environment: the
  \<^verbatim>\<open>default\<close> tags of the fields.
\<close>

definition default_config :: config where
  "default_config =
     \<lparr>DB = \<lparr>User = ''postgres'', Password = ''postgres'', Host = ''localhost'',
            Name = ''postgres'', DisableTLS = False\<rparr>,
      HTTP = \<lparr>Address = '':8000''\<rparr>\<rparr>"

text \<open>
  The lines of the log, how often an action occurs, and the bytes of the \<open>Stdout\<close>
  actions.
\<close>

fun logged :: "action list \<Rightarrow> string list" where
  "logged [] = []"
| "logged (Print line # as) = line # logged as"
| "logged (Fatalf line # as) = line # logged as"
| "logged (a # as) = logged as"

definition occurrences :: "action \<Rightarrow> action list \<Rightarrow> nat" where
  "occurrences a as = length (filter (\<lambda>b. b = a) as)"

fun is_Shutdown :: "action \<Rightarrow> bool" where
  "is_Shutdown (Shutdown t) = True"
| "is_Shutdown a = False"

definition written :: "action list \<Rightarrow> string" where
  "written as = concat (map (\<lambda>a. case a of Stdout bytes \<Rightarrow> bytes | _ \<Rightarrow> []) as)"

section \<open>The wait for a trigger, with deliveries interleaved\<close>

text \<open>
  From the \<^verbatim>\<open>select\<close> statement on, the main goroutine runs beside the goroutine of
  \<^verbatim>\<open>ListenAndServe\<close> and the runtime's delivery of signals. Both write to a channel with one
  slot: \<^verbatim>\<open>serverErrors\<close> gets the one error \<^verbatim>\<open>ListenAndServe\<close> returns, \<^verbatim>\<open>osSignals\<close> gets a
  signal when its slot is free (\<^verbatim>\<open>signal.Notify\<close> does not block, a signal that finds the
  slot taken is dropped). The main goroutine is at one of these places:
\<close>

datatype place =
    At_select
  | In_Shutdown
  | In_Close string
  | At_done
  | Exited nat

record process =
  place :: place
  serverErrors :: "string option"
  osSignals :: "signal option"
  received :: "event list"
  trace :: "action list"

text \<open>
  One step of a schedule: a signal arrives, \<^verbatim>\<open>ListenAndServe\<close> returns, or the main goroutine
  moves on. When both channels are ready Go's \<^verbatim>\<open>select\<close> takes either; the flag of \<open>Main\<close>
  says whether it takes \<^verbatim>\<open>serverErrors\<close> then. When neither is ready the main goroutine
  stays blocked. After the process has exited nothing happens.
\<close>

datatype move =
    Deliver signal
  | Serve_returns string
  | Main bool

definition main_step :: "environment \<Rightarrow> bool \<Rightarrow> process \<Rightarrow> process" where
  "main_step env prefer_error p =
     (case place p of
        At_select \<Rightarrow>
          (case (serverErrors p, osSignals p) of
             (None, None) \<Rightarrow> p
           | (Some err, None) \<Rightarrow>
               p\<lparr>place := Exited 1, serverErrors := None,
                 received := received p @ [ServerError err],
                 trace := trace p @ [Fatalf (''error: listening and serving: '' @ err)]\<rparr>
           | (None, Some sig) \<Rightarrow>
               p\<lparr>place := In_Shutdown, osSignals := None,
                 received := received p @ [OsSignal sig],
                 trace := trace p @ [Print ''caught signal, shutting down'', Shutdown timeout]\<rparr>
           | (Some err, Some sig) \<Rightarrow>
               if prefer_error then
                 p\<lparr>place := Exited 1, serverErrors := None,
                   received := received p @ [ServerError err],
                   trace := trace p @ [Fatalf (''error: listening and serving: '' @ err)]\<rparr>
               else
                 p\<lparr>place := In_Shutdown, osSignals := None,
                   received := received p @ [OsSignal sig],
                   trace := trace p @ [Print ''caught signal, shutting down'', Shutdown timeout]\<rparr>)
      | In_Shutdown \<Rightarrow>
          (case server_Shutdown env timeout of
             Some err \<Rightarrow> p\<lparr>place := In_Close err\<rparr>
           | None \<Rightarrow> p\<lparr>place := At_done\<rparr>)
      | In_Close err \<Rightarrow>
          p\<lparr>place := At_done,
            trace := trace p @
              [Print (''error: gracefully shutting down server: '' @ err), Close] @
              (case server_Close env of
                 Some err' \<Rightarrow> [Print (''error: closing server: '' @ err')]
               | None \<Rightarrow> [])\<rparr>
      | At_done \<Rightarrow>
          p\<lparr>place := Exited 0, trace := trace p @ [Print ''done'', Cancel, DB_Close]\<rparr>
      | Exited status \<Rightarrow> p)"

definition step :: "environment \<Rightarrow> process \<Rightarrow> move \<Rightarrow> process" where
  "step env p m =
     (case place p of
        Exited status \<Rightarrow> p
      | _ \<Rightarrow>
          (case m of
             Deliver sig \<Rightarrow>
               (case osSignals p of None \<Rightarrow> p\<lparr>osSignals := Some sig\<rparr> | Some held \<Rightarrow> p)
           | Serve_returns err \<Rightarrow>
               (case serverErrors p of None \<Rightarrow> p\<lparr>serverErrors := Some err\<rparr> | Some held \<Rightarrow> p)
           | Main prefer_error \<Rightarrow> main_step env prefer_error p))"

definition run :: "environment \<Rightarrow> process \<Rightarrow> move list \<Rightarrow> process" where
  "run env p ms = foldl (step env) p ms"

text \<open>The process when it reaches the \<^verbatim>\<open>select\<close> statement, "startup complete" logged.\<close>

definition serving :: process where
  "serving = \<lparr>place = At_select, serverErrors = None, osSignals = None, received = [],
              trace = [Print ''startup complete'']\<rparr>"

text \<open>What the main goroutine has done and where it stands, the channels left out.\<close>

definition progress :: "process \<Rightarrow> place \<times> event list \<times> action list" where
  "progress p = (place p, received p, trace p)"

fun is_Main :: "move \<Rightarrow> bool" where
  "is_Main (Main prefer_error) = True"
| "is_Main m = False"

section \<open>Facts about the classifier\<close>

lemmas errors_defs =
  errors_New_def errors_Wrap_def errors_Wrapf_def web_WrapErrorWithStatus_def

lemma cause_Wrap: "cause (errors_Wrap err message) = cause err"
  by (simp add: errors_Wrap_def)

lemma cause_Wrapf: "cause (errors_Wrapf err format args) = cause err"
  by (simp add: errors_Wrapf_def)

lemma carried_status_Wrap: "carried_status (errors_Wrap err message) = carried_status err"
  by (simp add: errors_Wrap_def)

lemma carried_status_Wrapf: "carried_status (errors_Wrapf err format args) = carried_status err"
  by (simp add: errors_Wrapf_def)

lemma Classify_Wrap: "Classify (errors_Wrap err message) = Classify err"
  by (simp add: Classify_def cause_Wrap carried_status_Wrap)

lemma Classify_Wrapf: "Classify (errors_Wrapf err format args) = Classify err"
  by (simp add: Classify_def cause_Wrapf carried_status_Wrapf)

lemma Classify_WrapErrorWithStatus: "Classify (web_WrapErrorWithStatus err status) = status"
  by (simp add: Classify_def web_WrapErrorWithStatus_def)

lemma Classify_New: "Classify (errors_New message) = StatusInternalServerError"
  by (simp add: Classify_def errors_New_def)

lemma Classify_sentinels:
  "Classify ErrNotFound = StatusNotFound" "Classify ErrInvalidID = StatusBadRequest"
  "Classify ErrForbidden = StatusForbidden"
  by (simp_all add: Classify_def)

lemma cause_decorated: "cause (decorated err messages) = cause err"
  unfolding decorated_def
  by (induction messages rule: rev_induct) (simp_all add: errors_Wrap_def)

lemma carried_status_decorated: "carried_status (decorated err messages) = carried_status err"
  unfolding decorated_def
  by (induction messages rule: rev_induct) (simp_all add: errors_Wrap_def)

lemma Classify_decorated: "Classify (decorated err messages) = Classify err"
  by (simp add: Classify_def cause_decorated carried_status_decorated)

lemma Classify_by_cause:
  "Classify err =
     (if cause err = ErrNotFound then StatusNotFound
      else if cause err = ErrInvalidID then StatusBadRequest
      else if cause err = ErrForbidden then StatusForbidden
      else case carried_status err of
             Some status \<Rightarrow> status
           | None \<Rightarrow> StatusInternalServerError)"
  by (simp add: Classify_def)

lemma Get_error:
  "products_Get (url_id r) = Inl err \<Longrightarrow>
   Products_Get products_Get r =
     Returned (if err = ErrNotFound then web_WrapErrorWithStatus err StatusNotFound
               else if err = ErrInvalidID then web_WrapErrorWithStatus err StatusBadRequest
               else errors_Wrapf err ''getting product %q'' [url_id r])"
  by (simp add: Products_Get_def)

lemma Update_error:
  "web_Decode (body r) = Inr update \<Longrightarrow> ctx_claims r = Some claims \<Longrightarrow>
   products_Update claims (url_id r) update = Some err \<Longrightarrow>
   Products_Update products_Update web_Decode r =
     Returned (if err = ErrNotFound then web_WrapErrorWithStatus err StatusNotFound
               else if err = ErrInvalidID then web_WrapErrorWithStatus err StatusBadRequest
               else if err = ErrForbidden then web_WrapErrorWithStatus err StatusForbidden
               else errors_Wrapf err ''updating product %q'' [url_id r])"
  by (simp add: Products_Update_def)

lemma Delete_error:
  "products_Delete (url_id r) = Some err \<Longrightarrow>
   Products_Delete products_Delete r =
     Returned (if err = ErrInvalidID then web_WrapErrorWithStatus err StatusBadRequest
               else errors_Wrapf err ''deleting product %q'' [url_id r])"
  by (simp add: Products_Delete_def)

text \<open>
  The handlers leave the classification of a domain error as it is: a listed sentinel gets
  the status the classifier gives it, any other error is only decorated.
\<close>

lemma Get_status:
  "products_Get (url_id r) = Inl err \<Longrightarrow>
   error_status (Products_Get products_Get r) = Some (Classify err)"
  by (simp add: Get_error error_status_def Classify_WrapErrorWithStatus Classify_Wrapf
      Classify_sentinels)

lemma Update_status:
  "web_Decode (body r) = Inr update \<Longrightarrow> ctx_claims r = Some claims \<Longrightarrow>
   products_Update claims (url_id r) update = Some err \<Longrightarrow>
   error_status (Products_Update products_Update web_Decode r) = Some (Classify err)"
  by (simp add: Update_error error_status_def Classify_WrapErrorWithStatus Classify_Wrapf
      Classify_sentinels)

lemma Delete_status:
  "products_Delete (url_id r) = Some err \<Longrightarrow>
   error_status (Products_Delete products_Delete r) = Some (Classify err)"
  by (simp add: Delete_error error_status_def Classify_WrapErrorWithStatus Classify_Wrapf
      Classify_sentinels)

section \<open>Facts about the process\<close>

lemma main_serving:
  assumes "flag_Parse env = Parsed False" "envconfig_Process env = Inr cfg"
    "sqlx_Connect env = None"
  shows "\<exists>u. main json_string env =
     (case select_receives env of
        None \<Rightarrow> ([Connect u, ListenAndServe (Address (HTTP cfg)), Notify, Print ''startup complete''], Blocked)
      | Some (ServerError err) \<Rightarrow>
          ([Connect u, ListenAndServe (Address (HTTP cfg)), Notify, Print ''startup complete'',
            Fatalf (''error: listening and serving: '' @ err)], Exit 1)
      | Some (OsSignal sig) \<Rightarrow>
          ([Connect u, ListenAndServe (Address (HTTP cfg)), Notify, Print ''startup complete'']
             @ shutting_down env @ [Print ''done'', Cancel, DB_Close], Exit 0))"
  using assms by (simp add: main_def Let_def split: option.splits event.splits)

lemma logged_append: "logged (as @ bs) = logged as @ logged bs"
  by (induction as rule: logged.induct) simp_all

lemma shutting_down_graceful:
  "server_Shutdown env timeout = None \<Longrightarrow>
   shutting_down env = [Print ''caught signal, shutting down'', Shutdown timeout]"
  by (simp add: shutting_down_def)

lemma shutting_down_forced:
  "server_Shutdown env timeout = Some err \<Longrightarrow>
   shutting_down env =
     [Print ''caught signal, shutting down'', Shutdown timeout,
      Print (''error: gracefully shutting down server: '' @ err), Close] @
     (case server_Close env of
        Some err' \<Rightarrow> [Print (''error: closing server: '' @ err')]
      | None \<Rightarrow> [])"
  by (simp add: shutting_down_def)

lemma shutting_down_first_line:
  "\<exists>lines. logged (shutting_down env) = ''caught signal, shutting down'' # lines"
  by (simp add: shutting_down_def)

lemma logged_flag_Usage: "logged flag_Usage = []"
  by (simp add: flag_Usage_def)

lemma timeout_value: "timeout = 15000000000"
  by (simp add: timeout_def Second_def)

section \<open>Facts about the interleaved runs\<close>

lemma run_Nil: "run env p [] = p"
  by (simp add: run_def)

lemma run_Cons: "run env p (m # ms) = run env (step env p m) ms"
  by (simp add: run_def)

lemma run_append: "run env p (ms @ later) = run env (run env p ms) later"
  by (simp add: run_def)

lemma step_received:
  assumes "place p = At_select \<longrightarrow> received p = []"
    and "place p \<noteq> At_select \<longrightarrow> length (received p) = 1"
  shows "(place (step env p m) = At_select \<longrightarrow> received (step env p m) = [])
    \<and> (place (step env p m) \<noteq> At_select \<longrightarrow> length (received (step env p m)) = 1)"
proof (cases "place p")
  case At_select
  with assms show ?thesis
    by (cases m) (simp_all add: step_def main_step_def split: option.splits)
next
  case In_Shutdown
  with assms show ?thesis
    by (cases m) (simp_all add: step_def main_step_def split: option.splits)
next
  case (In_Close err)
  with assms show ?thesis
    by (cases m) (simp_all add: step_def main_step_def split: option.splits)
next
  case At_done
  with assms show ?thesis
    by (cases m) (simp_all add: step_def main_step_def split: option.splits)
next
  case (Exited status)
  with assms show ?thesis
    by (simp add: step_def)
qed

lemma run_received:
  "(place p = At_select \<longrightarrow> received p = []) \<Longrightarrow>
   (place p \<noteq> At_select \<longrightarrow> length (received p) = 1) \<Longrightarrow>
   (place (run env p ms) = At_select \<longrightarrow> received (run env p ms) = [])
    \<and> (place (run env p ms) \<noteq> At_select \<longrightarrow> length (received (run env p ms)) = 1)"
proof (induction ms arbitrary: p)
  case Nil
  then show ?case by (simp add: run_Nil)
next
  case (Cons m ms)
  from step_received [OF Cons.prems, of env m]
  have "place (step env p m) = At_select \<longrightarrow> received (step env p m) = []"
    and "place (step env p m) \<noteq> At_select \<longrightarrow> length (received (step env p m)) = 1"
    by simp_all
  from Cons.IH [OF this] show ?case by (simp add: run_Cons)
qed

lemma delivery_after_select:
  "place p \<noteq> At_select \<Longrightarrow> \<not> is_Main m \<Longrightarrow> progress (step env p m) = progress p"
  by (cases m; cases "place p")
    (simp_all add: step_def progress_def split: option.splits)

lemma main_after_select:
  "place p \<noteq> At_select \<Longrightarrow> progress q = progress p \<Longrightarrow>
   progress (step env p (Main prefer_error)) = progress (step env q (Main prefer_error))"
  by (cases "place p")
    (auto simp add: step_def main_step_def progress_def split: option.splits)

lemma place_after_select: "place p \<noteq> At_select \<Longrightarrow> place (step env p m) \<noteq> At_select"
  by (cases m; cases "place p")
    (simp_all add: step_def main_step_def split: option.splits)

lemma run_after_select:
  "place p \<noteq> At_select \<Longrightarrow> progress q = progress p \<Longrightarrow>
   progress (run env p ms) = progress (run env q (filter is_Main ms))"
proof (induction ms arbitrary: p q)
  case Nil
  then show ?case by (simp add: run_Nil)
next
  case (Cons m ms)
  have after: "place (step env p m) \<noteq> At_select"
    using Cons.prems(1) by (rule place_after_select)
  show ?case
  proof (cases "is_Main m")
    case True
    then obtain prefer_error where m: "m = Main prefer_error"
      by (cases m) simp_all
    have "progress (step env q m) = progress (step env p m)"
      using main_after_select [OF Cons.prems, of env prefer_error] m by simp
    from Cons.IH [OF after this] True show ?thesis
      by (simp add: run_Cons)
  next
    case False
    have "progress q = progress (step env p m)"
      using delivery_after_select [OF Cons.prems(1) False, of env] Cons.prems(2) by simp
    from Cons.IH [OF after this] False show ?thesis
      by (simp add: run_Cons)
  qed
qed

lemma run_signal_agrees_with_main:
  "progress (run env serving
      [Deliver sig, Main prefer_error, Main prefer_error, Main prefer_error, Main prefer_error])
   = (Exited 0, [OsSignal sig],
      Print ''startup complete'' # shutting_down env @ [Print ''done'', Cancel, DB_Close])"
  by (cases "server_Shutdown env timeout")
    (simp_all add: run_def step_def main_step_def serving_def progress_def shutting_down_def)

lemma run_listener_error_agrees_with_main:
  "progress (run env serving [Serve_returns err, Main prefer_error])
   = (Exited 1, [ServerError err],
      [Print ''startup complete'', Fatalf (''error: listening and serving: '' @ err)])"
  by (simp add: run_def step_def main_step_def serving_def progress_def)

section \<open>Claims about the errors of the handlers\<close>

text \<open>
  C1. Whatever error the domain layer returns to \<^verbatim>\<open>Products.Get\<close>, \<^verbatim>\<open>Products.Update\<close> or
  \<^verbatim>\<open>Products.Delete\<close>, the handler returns the error of its \<^verbatim>\<open>switch\<close> (the listed
  sentinels with their status, in the order of the cases, any other error decorated by
  \<^verbatim>\<open>errors.Wrapf\<close>), and the response has the fixed status of the sentinel: 404 for
  not-found, 400 for invalid-identifier, 403 for forbidden, the sentinel bare or below
  decorations. An error that is no sentinel and carries no status is answered with 500.
\<close>

theorem sentinels_mapped_by_every_handler:
  "(products_Get (url_id r) = Inl err \<longrightarrow>
      Products_Get products_Get r =
        Returned (if err = ErrNotFound then web_WrapErrorWithStatus err StatusNotFound
                  else if err = ErrInvalidID then web_WrapErrorWithStatus err StatusBadRequest
                  else errors_Wrapf err ''getting product %q'' [url_id r])
    \<and> (cause err = ErrNotFound \<longrightarrow>
         error_status (Products_Get products_Get r) = Some StatusNotFound)
    \<and> (cause err = ErrInvalidID \<longrightarrow>
         error_status (Products_Get products_Get r) = Some StatusBadRequest)
    \<and> (cause err = ErrForbidden \<longrightarrow>
         error_status (Products_Get products_Get r) = Some StatusForbidden)
    \<and> (cause err \<noteq> ErrNotFound \<and> cause err \<noteq> ErrInvalidID \<and> cause err \<noteq> ErrForbidden
          \<and> carried_status err = None \<longrightarrow>
         error_status (Products_Get products_Get r) = Some StatusInternalServerError))
   \<and> (web_Decode (body r) = Inr update \<and> ctx_claims r = Some claims
        \<and> products_Update claims (url_id r) update = Some err \<longrightarrow>
      Products_Update products_Update web_Decode r =
        Returned (if err = ErrNotFound then web_WrapErrorWithStatus err StatusNotFound
                  else if err = ErrInvalidID then web_WrapErrorWithStatus err StatusBadRequest
                  else if err = ErrForbidden then web_WrapErrorWithStatus err StatusForbidden
                  else errors_Wrapf err ''updating product %q'' [url_id r])
    \<and> (cause err = ErrNotFound \<longrightarrow>
         error_status (Products_Update products_Update web_Decode r) = Some StatusNotFound)
    \<and> (cause err = ErrInvalidID \<longrightarrow>
         error_status (Products_Update products_Update web_Decode r) = Some StatusBadRequest)
    \<and> (cause err = ErrForbidden \<longrightarrow>
         error_status (Products_Update products_Update web_Decode r) = Some StatusForbidden)
    \<and> (cause err \<noteq> ErrNotFound \<and> cause err \<noteq> ErrInvalidID \<and> cause err \<noteq> ErrForbidden
          \<and> carried_status err = None \<longrightarrow>
         error_status (Products_Update products_Update web_Decode r)
           = Some StatusInternalServerError))
   \<and> (products_Delete (url_id r) = Some err \<longrightarrow>
      Products_Delete products_Delete r =
        Returned (if err = ErrInvalidID then web_WrapErrorWithStatus err StatusBadRequest
                  else errors_Wrapf err ''deleting product %q'' [url_id r])
    \<and> (cause err = ErrNotFound \<longrightarrow>
         error_status (Products_Delete products_Delete r) = Some StatusNotFound)
    \<and> (cause err = ErrInvalidID \<longrightarrow>
         error_status (Products_Delete products_Delete r) = Some StatusBadRequest)
    \<and> (cause err = ErrForbidden \<longrightarrow>
         error_status (Products_Delete products_Delete r) = Some StatusForbidden)
    \<and> (cause err \<noteq> ErrNotFound \<and> cause err \<noteq> ErrInvalidID \<and> cause err \<noteq> ErrForbidden
          \<and> carried_status err = None \<longrightarrow>
         error_status (Products_Delete products_Delete r) = Some StatusInternalServerError))"
proof -
  have g: "products_Get (url_id r) = Inl err \<longrightarrow>
      Products_Get products_Get r =
        Returned (if err = ErrNotFound then web_WrapErrorWithStatus err StatusNotFound
                  else if err = ErrInvalidID then web_WrapErrorWithStatus err StatusBadRequest
                  else errors_Wrapf err ''getting product %q'' [url_id r])
    \<and> (cause err = ErrNotFound \<longrightarrow>
         error_status (Products_Get products_Get r) = Some StatusNotFound)
    \<and> (cause err = ErrInvalidID \<longrightarrow>
         error_status (Products_Get products_Get r) = Some StatusBadRequest)
    \<and> (cause err = ErrForbidden \<longrightarrow>
         error_status (Products_Get products_Get r) = Some StatusForbidden)
    \<and> (cause err \<noteq> ErrNotFound \<and> cause err \<noteq> ErrInvalidID \<and> cause err \<noteq> ErrForbidden
          \<and> carried_status err = None \<longrightarrow>
         error_status (Products_Get products_Get r) = Some StatusInternalServerError)"
  proof
    assume a: "products_Get (url_id r) = Inl err"
    have st: "error_status (Products_Get products_Get r) = Some (Classify err)"
      using a by (rule Get_status)
    have ret: "Products_Get products_Get r =
        Returned (if err = ErrNotFound then web_WrapErrorWithStatus err StatusNotFound
                  else if err = ErrInvalidID then web_WrapErrorWithStatus err StatusBadRequest
                  else errors_Wrapf err ''getting product %q'' [url_id r])"
      using a by (rule Get_error)
    show "Products_Get products_Get r =
        Returned (if err = ErrNotFound then web_WrapErrorWithStatus err StatusNotFound
                  else if err = ErrInvalidID then web_WrapErrorWithStatus err StatusBadRequest
                  else errors_Wrapf err ''getting product %q'' [url_id r])
    \<and> (cause err = ErrNotFound \<longrightarrow>
         error_status (Products_Get products_Get r) = Some StatusNotFound)
    \<and> (cause err = ErrInvalidID \<longrightarrow>
         error_status (Products_Get products_Get r) = Some StatusBadRequest)
    \<and> (cause err = ErrForbidden \<longrightarrow>
         error_status (Products_Get products_Get r) = Some StatusForbidden)
    \<and> (cause err \<noteq> ErrNotFound \<and> cause err \<noteq> ErrInvalidID \<and> cause err \<noteq> ErrForbidden
          \<and> carried_status err = None \<longrightarrow>
         error_status (Products_Get products_Get r) = Some StatusInternalServerError)"
      by (intro conjI, rule ret) (simp_all add: st Classify_by_cause)
  qed
  have u: "web_Decode (body r) = Inr update \<and> ctx_claims r = Some claims
        \<and> products_Update claims (url_id r) update = Some err \<longrightarrow>
      Products_Update products_Update web_Decode r =
        Returned (if err = ErrNotFound then web_WrapErrorWithStatus err StatusNotFound
                  else if err = ErrInvalidID then web_WrapErrorWithStatus err StatusBadRequest
                  else if err = ErrForbidden then web_WrapErrorWithStatus err StatusForbidden
                  else errors_Wrapf err ''updating product %q'' [url_id r])
    \<and> (cause err = ErrNotFound \<longrightarrow>
         error_status (Products_Update products_Update web_Decode r) = Some StatusNotFound)
    \<and> (cause err = ErrInvalidID \<longrightarrow>
         error_status (Products_Update products_Update web_Decode r) = Some StatusBadRequest)
    \<and> (cause err = ErrForbidden \<longrightarrow>
         error_status (Products_Update products_Update web_Decode r) = Some StatusForbidden)
    \<and> (cause err \<noteq> ErrNotFound \<and> cause err \<noteq> ErrInvalidID \<and> cause err \<noteq> ErrForbidden
          \<and> carried_status err = None \<longrightarrow>
         error_status (Products_Update products_Update web_Decode r)
           = Some StatusInternalServerError)"
  proof
    assume a: "web_Decode (body r) = Inr update \<and> ctx_claims r = Some claims
        \<and> products_Update claims (url_id r) update = Some err"
    then have a1: "web_Decode (body r) = Inr update" and a2: "ctx_claims r = Some claims"
      and a3: "products_Update claims (url_id r) update = Some err"
      by simp_all
    have st: "error_status (Products_Update products_Update web_Decode r) = Some (Classify err)"
      using a1 a2 a3 by (rule Update_status)
    have ret: "Products_Update products_Update web_Decode r =
        Returned (if err = ErrNotFound then web_WrapErrorWithStatus err StatusNotFound
                  else if err = ErrInvalidID then web_WrapErrorWithStatus err StatusBadRequest
                  else if err = ErrForbidden then web_WrapErrorWithStatus err StatusForbidden
                  else errors_Wrapf err ''updating product %q'' [url_id r])"
      using a1 a2 a3 by (rule Update_error)
    show "Products_Update products_Update web_Decode r =
        Returned (if err = ErrNotFound then web_WrapErrorWithStatus err StatusNotFound
                  else if err = ErrInvalidID then web_WrapErrorWithStatus err StatusBadRequest
                  else if err = ErrForbidden then web_WrapErrorWithStatus err StatusForbidden
                  else errors_Wrapf err ''updating product %q'' [url_id r])
    \<and> (cause err = ErrNotFound \<longrightarrow>
         error_status (Products_Update products_Update web_Decode r) = Some StatusNotFound)
    \<and> (cause err = ErrInvalidID \<longrightarrow>
         error_status (Products_Update products_Update web_Decode r) = Some StatusBadRequest)
    \<and> (cause err = ErrForbidden \<longrightarrow>
         error_status (Products_Update products_Update web_Decode r) = Some StatusForbidden)
    \<and> (cause err \<noteq> ErrNotFound \<and> cause err \<noteq> ErrInvalidID \<and> cause err \<noteq> ErrForbidden
          \<and> carried_status err = None \<longrightarrow>
         error_status (Products_Update products_Update web_Decode r)
           = Some StatusInternalServerError)"
      by (intro conjI, rule ret) (simp_all add: st Classify_by_cause)
  qed
  have d: "products_Delete (url_id r) = Some err \<longrightarrow>
      Products_Delete products_Delete r =
        Returned (if err = ErrInvalidID then web_WrapErrorWithStatus err StatusBadRequest
                  else errors_Wrapf err ''deleting product %q'' [url_id r])
    \<and> (cause err = ErrNotFound \<longrightarrow>
         error_status (Products_Delete products_Delete r) = Some StatusNotFound)
    \<and> (cause err = ErrInvalidID \<longrightarrow>
         error_status (Products_Delete products_Delete r) = Some StatusBadRequest)
    \<and> (cause err = ErrForbidden \<longrightarrow>
         error_status (Products_Delete products_Delete r) = Some StatusForbidden)
    \<and> (cause err \<noteq> ErrNotFound \<and> cause err \<noteq> ErrInvalidID \<and> cause err \<noteq> ErrForbidden
          \<and> carried_status err = None \<longrightarrow>
         error_status (Products_Delete products_Delete r) = Some StatusInternalServerError)"
  proof
    assume a: "products_Delete (url_id r) = Some err"
    have st: "error_status (Products_Delete products_Delete r) = Some (Classify err)"
      using a by (rule Delete_status)
    have ret: "Products_Delete products_Delete r =
        Returned (if err = ErrInvalidID then web_WrapErrorWithStatus err StatusBadRequest
                  else errors_Wrapf err ''deleting product %q'' [url_id r])"
      using a by (rule Delete_error)
    show "Products_Delete products_Delete r =
        Returned (if err = ErrInvalidID then web_WrapErrorWithStatus err StatusBadRequest
                  else errors_Wrapf err ''deleting product %q'' [url_id r])
    \<and> (cause err = ErrNotFound \<longrightarrow>
         error_status (Products_Delete products_Delete r) = Some StatusNotFound)
    \<and> (cause err = ErrInvalidID \<longrightarrow>
         error_status (Products_Delete products_Delete r) = Some StatusBadRequest)
    \<and> (cause err = ErrForbidden \<longrightarrow>
         error_status (Products_Delete products_Delete r) = Some StatusForbidden)
    \<and> (cause err \<noteq> ErrNotFound \<and> cause err \<noteq> ErrInvalidID \<and> cause err \<noteq> ErrForbidden
          \<and> carried_status err = None \<longrightarrow>
         error_status (Products_Delete products_Delete r) = Some StatusInternalServerError)"
      by (intro conjI, rule ret) (simp_all add: st Classify_by_cause)
  qed
  from g u d show ?thesis by (intro conjI)
qed

theorem sentinels_mapped_by_every_handler_witness:
  "error_status (Products_Get (\<lambda>pid. (Inl ErrNotFound :: error + unit))
      \<lparr>url_id = ''5'', ctx_claims = Some (), body = ''{}''\<rparr>) = Some StatusNotFound
   \<and> error_status (Products_Update (\<lambda>claims pid update. Some ErrNotFound)
      (\<lambda>b. (Inr () :: error + unit))
      \<lparr>url_id = ''5'', ctx_claims = Some (), body = ''{}''\<rparr> :: unit handled) = Some StatusNotFound
   \<and> error_status (Products_Get (\<lambda>pid. (Inl ErrInvalidID :: error + unit))
      \<lparr>url_id = ''x'', ctx_claims = Some (), body = ''{}''\<rparr>) = Some StatusBadRequest
   \<and> error_status (Products_Update (\<lambda>claims pid update. Some ErrInvalidID)
      (\<lambda>b. (Inr () :: error + unit))
      \<lparr>url_id = ''x'', ctx_claims = Some (), body = ''{}''\<rparr> :: unit handled) = Some StatusBadRequest
   \<and> error_status (Products_Delete (\<lambda>pid. Some ErrInvalidID)
      \<lparr>url_id = ''x'', ctx_claims = Some (), body = ''{}''\<rparr> :: unit handled) = Some StatusBadRequest
   \<and> (Products_Update (\<lambda>claims pid update. Some ErrForbidden)
      (\<lambda>b. (Inr () :: error + unit))
      \<lparr>url_id = ''5'', ctx_claims = Some (), body = ''{}''\<rparr> :: unit handled)
        = Returned (web_WrapErrorWithStatus ErrForbidden StatusForbidden)
   \<and> error_status (Products_Update (\<lambda>claims pid update. Some ErrForbidden)
      (\<lambda>b. (Inr () :: error + unit))
      \<lparr>url_id = ''5'', ctx_claims = Some (), body = ''{}''\<rparr> :: unit handled) = Some StatusForbidden
   \<and> Products_Get (\<lambda>pid. (Inl (Fundamental ''pq: connection refused'') :: error + unit))
      \<lparr>url_id = ''5'', ctx_claims = Some (), body = ''{}''\<rparr>
        = Returned (errors_Wrapf (Fundamental ''pq: connection refused'')
            ''getting product %q'' [''5''])
   \<and> error_status (Products_Get (\<lambda>pid. (Inl (Fundamental ''pq: connection refused'') :: error + unit))
      \<lparr>url_id = ''5'', ctx_claims = Some (), body = ''{}''\<rparr>) = Some StatusInternalServerError
   \<and> error_status (Products_Update (\<lambda>claims pid update. Some (Fundamental ''pq: connection refused''))
      (\<lambda>b. (Inr () :: error + unit))
      \<lparr>url_id = ''5'', ctx_claims = Some (), body = ''{}''\<rparr> :: unit handled)
        = Some StatusInternalServerError
   \<and> error_status (Products_Delete (\<lambda>pid. Some (Fundamental ''pq: connection refused''))
      \<lparr>url_id = ''5'', ctx_claims = Some (), body = ''{}''\<rparr> :: unit handled)
        = Some StatusInternalServerError"
  using
    sentinels_mapped_by_every_handler
      [of "\<lambda>pid. (Inl ErrNotFound :: error + unit)"
          "\<lparr>url_id = ''5'', ctx_claims = Some (), body = ''{}''\<rparr>" ErrNotFound
          "\<lambda>b. (Inr () :: error + unit)" "()" "()" "\<lambda>claims pid update. Some ErrNotFound"
          "\<lambda>pid. Some ErrNotFound"]
    sentinels_mapped_by_every_handler
      [of "\<lambda>pid. (Inl ErrInvalidID :: error + unit)"
          "\<lparr>url_id = ''x'', ctx_claims = Some (), body = ''{}''\<rparr>" ErrInvalidID
          "\<lambda>b. (Inr () :: error + unit)" "()" "()" "\<lambda>claims pid update. Some ErrInvalidID"
          "\<lambda>pid. Some ErrInvalidID"]
    sentinels_mapped_by_every_handler
      [of "\<lambda>pid. (Inl ErrForbidden :: error + unit)"
          "\<lparr>url_id = ''5'', ctx_claims = Some (), body = ''{}''\<rparr>" ErrForbidden
          "\<lambda>b. (Inr () :: error + unit)" "()" "()" "\<lambda>claims pid update. Some ErrForbidden"
          "\<lambda>pid. Some ErrForbidden"]
    sentinels_mapped_by_every_handler
      [of "\<lambda>pid. (Inl (Fundamental ''pq: connection refused'') :: error + unit)"
          "\<lparr>url_id = ''5'', ctx_claims = Some (), body = ''{}''\<rparr>"
          "Fundamental ''pq: connection refused''"
          "\<lambda>b. (Inr () :: error + unit)" "()" "()"
          "\<lambda>claims pid update. Some (Fundamental ''pq: connection refused'')"
          "\<lambda>pid. Some (Fundamental ''pq: connection refused'')"]
  by (simp add: Products_Get_def Products_Update_def Products_Delete_def error_status_def
      Classify_def errors_defs)

text \<open>
  C3. For a DELETE whose domain call returns the not-found sentinel, \<^verbatim>\<open>Products.Delete\<close>
  (whose \<^verbatim>\<open>switch\<close> lists \<^verbatim>\<open>products.ErrInvalidID\<close> only) returns the sentinel decorated by
  \<^verbatim>\<open>errors.Wrapf\<close>, with no status attached. The classifier finds the sentinel below the
  decoration, and the response has status 404.
\<close>

theorem Delete_not_found_status:
  "products_Delete (url_id r) = Some ErrNotFound \<longrightarrow>
     Products_Delete products_Delete r
       = Returned (errors_Wrapf ErrNotFound ''deleting product %q'' [url_id r])
     \<and> carried_status (errors_Wrapf ErrNotFound ''deleting product %q'' [url_id r]) = None
     \<and> cause (errors_Wrapf ErrNotFound ''deleting product %q'' [url_id r]) = ErrNotFound
     \<and> error_status (Products_Delete products_Delete r) = Some StatusNotFound"
  by (simp add: Delete_error error_status_def Classify_Wrapf Classify_sentinels cause_Wrapf
      carried_status_Wrapf)

theorem Delete_not_found_status_witness:
  "url_id \<lparr>url_id = ''a2b0639f-2cc6-44b8-b97b-15d69dbb511e'', ctx_claims = (None :: unit option),
           body = ''''\<rparr> = ''a2b0639f-2cc6-44b8-b97b-15d69dbb511e''
   \<and> Products_Delete (\<lambda>pid. Some ErrNotFound)
     \<lparr>url_id = ''a2b0639f-2cc6-44b8-b97b-15d69dbb511e'', ctx_claims = (None :: unit option), body = ''''\<rparr>
   = (Returned (errors_Wrapf ErrNotFound ''deleting product %q''
        [''a2b0639f-2cc6-44b8-b97b-15d69dbb511e'']) :: unit handled)
   \<and> error_status (Products_Delete (\<lambda>pid. Some ErrNotFound)
     \<lparr>url_id = ''a2b0639f-2cc6-44b8-b97b-15d69dbb511e'', ctx_claims = (None :: unit option), body = ''''\<rparr>
       :: unit handled)
     = Some StatusNotFound"
  using Delete_not_found_status
    [of "\<lambda>pid. Some ErrNotFound"
        "\<lparr>url_id = ''a2b0639f-2cc6-44b8-b97b-15d69dbb511e'', ctx_claims = (None :: unit option),
          body = ''''\<rparr>"]
  by (simp add: Products_Delete_def error_status_def Classify_def errors_defs)

text \<open>
  C4. Each sentinel has its fixed status (404, 400, 403), and the status is the same when
  the sentinel has been decorated with messages before it is classified: the classifier of
  a decorated sentinel gives the status of the bare one. Through \<^verbatim>\<open>Products.Get\<close>: when
  the domain layer returns a sentinel, bare or decorated, the response has the status of
  the sentinel, and that status stays whatever is decorated around the error the handler
  returns.
\<close>

theorem sentinel_status_survives_decoration:
  "E = ErrNotFound \<or> E = ErrInvalidID \<or> E = ErrForbidden \<longrightarrow>
     Classify E = (if E = ErrNotFound then StatusNotFound
                   else if E = ErrInvalidID then StatusBadRequest else StatusForbidden)
     \<and> Classify (decorated E messages) = Classify E
     \<and> (products_Get (url_id r) = Inl (decorated E messages) \<longrightarrow>
          error_status (Products_Get products_Get r) = Some (Classify E)
          \<and> (\<exists>e. Products_Get products_Get r = Returned e
                \<and> Classify (decorated e outer) = Classify E))"
proof
  assume E: "E = ErrNotFound \<or> E = ErrInvalidID \<or> E = ErrForbidden"
  have fixed: "Classify E = (if E = ErrNotFound then StatusNotFound
                   else if E = ErrInvalidID then StatusBadRequest else StatusForbidden)"
    using E by (auto simp add: Classify_sentinels)
  have dec: "Classify (decorated E messages) = Classify E"
    by (rule Classify_decorated)
  have get: "error_status (Products_Get products_Get r) = Some (Classify E)
          \<and> (\<exists>e. Products_Get products_Get r = Returned e
                \<and> Classify (decorated e outer) = Classify E)"
    if a: "products_Get (url_id r) = Inl (decorated E messages)"
  proof -
    have s: "error_status (Products_Get products_Get r) = Some (Classify E)"
      using Get_status [where products_Get = products_Get and r = r, OF a]
      by (simp add: Classify_decorated)
    obtain e where e: "Products_Get products_Get r = Returned e"
      using Get_error [where products_Get = products_Get and r = r, OF a] by blast
    with s have "Classify e = Classify E"
      by (simp add: error_status_def)
    then have "Classify (decorated e outer) = Classify E"
      by (simp add: Classify_decorated)
    with s e show ?thesis by blast
  qed
  from fixed dec get
  show "Classify E = (if E = ErrNotFound then StatusNotFound
                   else if E = ErrInvalidID then StatusBadRequest else StatusForbidden)
     \<and> Classify (decorated E messages) = Classify E
     \<and> (products_Get (url_id r) = Inl (decorated E messages) \<longrightarrow>
          error_status (Products_Get products_Get r) = Some (Classify E)
          \<and> (\<exists>e. Products_Get products_Get r = Returned e
                \<and> Classify (decorated e outer) = Classify E))"
    by blast
qed

theorem sentinel_status_survives_decoration_witness:
  "Classify ErrNotFound = StatusNotFound
   \<and> Classify (decorated ErrNotFound [''selecting product'', ''products.Get'']) = StatusNotFound
   \<and> error_status
        (Products_Get
           (\<lambda>pid. (Inl (decorated ErrNotFound [''selecting product'', ''products.Get''])
                     :: error + unit))
           \<lparr>url_id = ''5'', ctx_claims = (None :: unit option), body = ''''\<rparr>)
       = Some StatusNotFound
   \<and> Classify (decorated ErrInvalidID []) = StatusBadRequest
   \<and> error_status
        (Products_Get (\<lambda>pid. (Inl ErrInvalidID :: error + unit))
           \<lparr>url_id = ''x'', ctx_claims = (None :: unit option), body = ''''\<rparr>)
       = Some StatusBadRequest
   \<and> Classify (decorated (web_WrapErrorWithStatus ErrInvalidID StatusBadRequest)
        [''handling request'']) = StatusBadRequest"
  using
    sentinel_status_survives_decoration
      [where E = ErrNotFound and messages = "[''selecting product'', ''products.Get'']"
         and r = "\<lparr>url_id = ''5'', ctx_claims = (None :: unit option), body = ''''\<rparr>"
         and products_Get = "\<lambda>pid. (Inl (decorated ErrNotFound
               [''selecting product'', ''products.Get'']) :: error + unit)"
         and outer = "[''handling request'']"]
    sentinel_status_survives_decoration
      [where E = ErrInvalidID and messages = "[]"
         and r = "\<lparr>url_id = ''x'', ctx_claims = (None :: unit option), body = ''''\<rparr>"
         and products_Get = "\<lambda>pid. (Inl ErrInvalidID :: error + unit)"
         and outer = "[''handling request'']"]
  by (simp add: Products_Get_def error_status_def decorated_def Classify_def errors_defs)

text \<open>
  C5. \<open>Classify\<close> gives 500 for every error that is no sentinel, bare or decorated, and
  carries no status, whatever is decorated around it; the error of the default branch of
  \<^verbatim>\<open>Products.Get\<close> for such a domain error is among them, and so is every error that is
  only a message. \<open>Classify\<close> is a total function: every error gets the status of one of
  the five steps, and no step can fail.
\<close>

theorem unrecognized_errors_are_internal:
  "(cause err \<noteq> ErrNotFound \<and> cause err \<noteq> ErrInvalidID \<and> cause err \<noteq> ErrForbidden
      \<and> carried_status err = None \<longrightarrow>
        Classify err = StatusInternalServerError
        \<and> Classify (decorated err messages) = StatusInternalServerError
        \<and> (products_Get (url_id r) = Inl err \<longrightarrow>
              Products_Get products_Get r
                = Returned (errors_Wrapf err ''getting product %q'' [url_id r])
              \<and> error_status (Products_Get products_Get r) = Some StatusInternalServerError))
   \<and> Classify (decorated (Fundamental message) messages) = StatusInternalServerError
   \<and> (Classify err = StatusNotFound \<or> Classify err = StatusBadRequest
        \<or> Classify err = StatusForbidden \<or> carried_status err = Some (Classify err)
        \<or> Classify err = StatusInternalServerError)"
proof -
  have total: "Classify err = StatusNotFound \<or> Classify err = StatusBadRequest
        \<or> Classify err = StatusForbidden \<or> carried_status err = Some (Classify err)
        \<or> Classify err = StatusInternalServerError"
    by (simp add: Classify_def split: option.splits)
  have message: "Classify (decorated (Fundamental message) messages) = StatusInternalServerError"
    by (simp add: Classify_decorated) (simp add: Classify_def)
  have default: "Classify err = StatusInternalServerError"
      "Classify (decorated err messages) = StatusInternalServerError"
    if "cause err \<noteq> ErrNotFound" "cause err \<noteq> ErrInvalidID" "cause err \<noteq> ErrForbidden"
       "carried_status err = None"
    using that by (simp_all add: Classify_decorated) (simp_all add: Classify_def)
  have get: "Products_Get products_Get r
                = Returned (errors_Wrapf err ''getting product %q'' [url_id r])
              \<and> error_status (Products_Get products_Get r) = Some StatusInternalServerError"
    if c: "cause err \<noteq> ErrNotFound" "cause err \<noteq> ErrInvalidID" "cause err \<noteq> ErrForbidden"
       "carried_status err = None"
      and a: "products_Get (url_id r) = Inl err"
  proof -
    have "err \<noteq> ErrNotFound" "err \<noteq> ErrInvalidID"
      using c by auto
    then have "Products_Get products_Get r
        = Returned (errors_Wrapf err ''getting product %q'' [url_id r])"
      using Get_error [where products_Get = products_Get and r = r and err = err, OF a] by simp
    moreover have "error_status (Products_Get products_Get r) = Some StatusInternalServerError"
      using Get_status [where products_Get = products_Get and r = r and err = err, OF a]
        default(1) [OF c] by simp
    ultimately show ?thesis by simp
  qed
  from total message default get show ?thesis by blast
qed

theorem unrecognized_errors_are_internal_witness:
  "cause (errors_Wrap (Fundamental ''pq: connection refused'') ''selecting product'')
     = Fundamental ''pq: connection refused''
   \<and> carried_status (errors_Wrap (Fundamental ''pq: connection refused'') ''selecting product'')
     = None
   \<and> Classify (errors_Wrap (Fundamental ''pq: connection refused'') ''selecting product'')
     = StatusInternalServerError
   \<and> Products_Get
        (\<lambda>pid. (Inl (errors_Wrap (Fundamental ''pq: connection refused'') ''selecting product'')
                  :: error + unit))
        \<lparr>url_id = ''5'', ctx_claims = (None :: unit option), body = ''''\<rparr>
     = Returned (errors_Wrapf
         (errors_Wrap (Fundamental ''pq: connection refused'') ''selecting product'')
         ''getting product %q'' [''5''])
   \<and> error_status
        (Products_Get
           (\<lambda>pid. (Inl (errors_Wrap (Fundamental ''pq: connection refused'') ''selecting product'')
                     :: error + unit))
           \<lparr>url_id = ''5'', ctx_claims = (None :: unit option), body = ''''\<rparr>)
       = Some StatusInternalServerError"
  using unrecognized_errors_are_internal
    [where err = "errors_Wrap (Fundamental ''pq: connection refused'') ''selecting product''"
       and messages = "[]" and message = "''EOF''"
       and products_Get = "\<lambda>pid. (Inl (errors_Wrap (Fundamental ''pq: connection refused'')
             ''selecting product'') :: error + unit)"
       and r = "\<lparr>url_id = ''5'', ctx_claims = (None :: unit option), body = ''''\<rparr>"]
  by (simp add: Products_Get_def error_status_def Classify_def errors_defs)

text \<open>
  C8, as the claim states it: whenever the claims are absent from the context,
  \<^verbatim>\<open>Products.Create\<close> and \<^verbatim>\<open>Products.Update\<close> return an error without a status, answered
  with 500. Both handlers decode the body first and return on a decode failure before they
  look for the claims. A decode failure carries the status 400 (sections 4.3 and 7 of the
  spec), so a request with a malformed body and no claims is answered with 400.
\<close>

theorem claims_checked_after_decode_counterexample:
  "ctx_claims \<lparr>url_id = '''', ctx_claims = (None :: unit option), body = ''{''\<rparr> = None
   \<and> error_status
        (Products_Create (\<lambda>claims np. (Inr () :: error + unit))
           (\<lambda>b. (Inl (web_WrapErrorWithStatus (errors_New ''unexpected EOF'') StatusBadRequest)
                    :: error + unit))
           \<lparr>url_id = '''', ctx_claims = (None :: unit option), body = ''{''\<rparr>)
       = Some StatusBadRequest"
  by (simp add: Products_Create_def error_status_def Classify_def errors_defs)

text \<open>
  C8, as amended: when the body of the request decodes and the claims are absent from the
  context, \<^verbatim>\<open>Products.Create\<close> and \<^verbatim>\<open>Products.Update\<close> return
  \<^verbatim>\<open>errors.New("claims missing from context")\<close>, which carries no status and is answered
  with 500.
\<close>

theorem missing_claims_are_internal:
  "(web_Decode (body r) = Inr np \<and> ctx_claims r = None \<longrightarrow>
      Products_Create products_Create web_Decode r
        = Returned (errors_New ''claims missing from context'')
      \<and> carried_status (errors_New ''claims missing from context'') = None
      \<and> error_status (Products_Create products_Create web_Decode r)
            = Some StatusInternalServerError)
   \<and> (web_Decode' (body r) = Inr update \<and> ctx_claims r = None \<longrightarrow>
      Products_Update products_Update web_Decode' r
        = Returned (errors_New ''claims missing from context'')
      \<and> error_status (Products_Update products_Update web_Decode' r)
            = Some StatusInternalServerError)"
  by (simp add: Products_Create_def Products_Update_def error_status_def Classify_New)
    (simp add: errors_New_def)

theorem missing_claims_are_internal_witness:
  "ctx_claims \<lparr>url_id = ''5'', ctx_claims = (None :: unit option), body = ''{}''\<rparr> = None
   \<and> error_status
        (Products_Create (\<lambda>claims np. (Inr () :: error + unit)) (\<lambda>b. (Inr () :: error + unit))
           \<lparr>url_id = ''5'', ctx_claims = (None :: unit option), body = ''{}''\<rparr>)
       = Some StatusInternalServerError
   \<and> error_status
        (Products_Update (\<lambda>claims pid update. None) (\<lambda>b. (Inr () :: error + unit))
           \<lparr>url_id = ''5'', ctx_claims = (None :: unit option), body = ''{}''\<rparr> :: unit handled)
       = Some StatusInternalServerError"
  using missing_claims_are_internal
    [of "\<lambda>b. (Inr () :: error + unit)"
        "\<lparr>url_id = ''5'', ctx_claims = (None :: unit option), body = ''{}''\<rparr>"
        "()" "\<lambda>claims np. (Inr () :: error + unit)"
        "\<lambda>b. (Inr () :: error + unit)" "()" "\<lambda>claims pid update. None"]
  by (simp add: Products_Create_def Products_Update_def error_status_def Classify_New)

text \<open>
  C9, as the claim states it: every error of the domain layer inside \<^verbatim>\<open>Products.AddSale\<close> or
  \<^verbatim>\<open>Products.ListSales\<close>, the not-found and invalid-identifier sentinels included, is
  answered with 500. The handlers do attach no status, but the classifier finds the
  sentinel below the decoration of \<^verbatim>\<open>errors.Wrap\<close>: a not-found sentinel from
  \<^verbatim>\<open>products.AddSale\<close> is answered with 404, an invalid-identifier sentinel from
  \<^verbatim>\<open>products.ListSales\<close> with 400.
\<close>

theorem sales_sentinels_counterexample:
  "Products_AddSale (\<lambda>ns pid. (Inl ErrNotFound :: error + unit)) (\<lambda>b. Inr ())
        \<lparr>url_id = ''72f8b983-3eb4-48db-9ed0-e45cc6bd716b'', ctx_claims = (None :: unit option),
         body = ''{}''\<rparr>
       = Returned (errors_Wrap ErrNotFound ''adding new sale'')
   \<and> error_status (Products_AddSale (\<lambda>ns pid. (Inl ErrNotFound :: error + unit)) (\<lambda>b. Inr ())
        \<lparr>url_id = ''72f8b983-3eb4-48db-9ed0-e45cc6bd716b'', ctx_claims = (None :: unit option),
         body = ''{}''\<rparr>)
       = Some StatusNotFound
   \<and> error_status (Products_ListSales (\<lambda>pid. (Inl ErrInvalidID :: error + unit))
        \<lparr>url_id = ''not-a-uuid'', ctx_claims = (None :: unit option), body = ''''\<rparr>)
       = Some StatusBadRequest"
  by (simp add: Products_AddSale_def Products_ListSales_def error_status_def Classify_def
      errors_defs)

text \<open>
  C9, as amended: when the domain call of \<^verbatim>\<open>Products.AddSale\<close> or \<^verbatim>\<open>Products.ListSales\<close>
  returns an error, the handler returns that error decorated by \<^verbatim>\<open>errors.Wrap\<close> and
  attaches no status, so the failure is classified as the domain error itself is: as
  Internal (500) when the error is no sentinel, bare or decorated, and carries no status,
  while the not-found, invalid-identifier and forbidden sentinels keep 404, 400 and 403.
\<close>

theorem sales_errors_keep_their_classification:
  "(web_Decode (body r) = Inr ns \<and> products_AddSale ns (url_id r) = Inl err \<longrightarrow>
      Products_AddSale products_AddSale web_Decode r = Returned (errors_Wrap err ''adding new sale'')
      \<and> carried_status (errors_Wrap err ''adding new sale'') = carried_status err
      \<and> error_status (Products_AddSale products_AddSale web_Decode r) = Some (Classify err)
      \<and> (cause err \<noteq> ErrNotFound \<and> cause err \<noteq> ErrInvalidID \<and> cause err \<noteq> ErrForbidden
            \<and> carried_status err = None \<longrightarrow>
            error_status (Products_AddSale products_AddSale web_Decode r)
              = Some StatusInternalServerError)
      \<and> (cause err = ErrNotFound \<longrightarrow>
            error_status (Products_AddSale products_AddSale web_Decode r) = Some StatusNotFound)
      \<and> (cause err = ErrInvalidID \<longrightarrow>
            error_status (Products_AddSale products_AddSale web_Decode r) = Some StatusBadRequest)
      \<and> (cause err = ErrForbidden \<longrightarrow>
            error_status (Products_AddSale products_AddSale web_Decode r) = Some StatusForbidden))
   \<and> (products_ListSales (url_id r) = Inl err \<longrightarrow>
      Products_ListSales products_ListSales r = Returned (errors_Wrap err ''getting sales list'')
      \<and> carried_status (errors_Wrap err ''getting sales list'') = carried_status err
      \<and> error_status (Products_ListSales products_ListSales r) = Some (Classify err)
      \<and> (cause err \<noteq> ErrNotFound \<and> cause err \<noteq> ErrInvalidID \<and> cause err \<noteq> ErrForbidden
            \<and> carried_status err = None \<longrightarrow>
            error_status (Products_ListSales products_ListSales r)
              = Some StatusInternalServerError)
      \<and> (cause err = ErrNotFound \<longrightarrow>
            error_status (Products_ListSales products_ListSales r) = Some StatusNotFound)
      \<and> (cause err = ErrInvalidID \<longrightarrow>
            error_status (Products_ListSales products_ListSales r) = Some StatusBadRequest)
      \<and> (cause err = ErrForbidden \<longrightarrow>
            error_status (Products_ListSales products_ListSales r) = Some StatusForbidden))"
proof -
  have a: "web_Decode (body r) = Inr ns \<and> products_AddSale ns (url_id r) = Inl err \<longrightarrow>
      Products_AddSale products_AddSale web_Decode r = Returned (errors_Wrap err ''adding new sale'')
      \<and> carried_status (errors_Wrap err ''adding new sale'') = carried_status err
      \<and> error_status (Products_AddSale products_AddSale web_Decode r) = Some (Classify err)
      \<and> (cause err \<noteq> ErrNotFound \<and> cause err \<noteq> ErrInvalidID \<and> cause err \<noteq> ErrForbidden
            \<and> carried_status err = None \<longrightarrow>
            error_status (Products_AddSale products_AddSale web_Decode r)
              = Some StatusInternalServerError)
      \<and> (cause err = ErrNotFound \<longrightarrow>
            error_status (Products_AddSale products_AddSale web_Decode r) = Some StatusNotFound)
      \<and> (cause err = ErrInvalidID \<longrightarrow>
            error_status (Products_AddSale products_AddSale web_Decode r) = Some StatusBadRequest)
      \<and> (cause err = ErrForbidden \<longrightarrow>
            error_status (Products_AddSale products_AddSale web_Decode r) = Some StatusForbidden)"
  proof
    assume h: "web_Decode (body r) = Inr ns \<and> products_AddSale ns (url_id r) = Inl err"
    have ret: "Products_AddSale products_AddSale web_Decode r
        = Returned (errors_Wrap err ''adding new sale'')"
      using h by (simp add: Products_AddSale_def)
    have st: "error_status (Products_AddSale products_AddSale web_Decode r) = Some (Classify err)"
      by (simp add: ret error_status_def Classify_Wrap)
    show "Products_AddSale products_AddSale web_Decode r = Returned (errors_Wrap err ''adding new sale'')
      \<and> carried_status (errors_Wrap err ''adding new sale'') = carried_status err
      \<and> error_status (Products_AddSale products_AddSale web_Decode r) = Some (Classify err)
      \<and> (cause err \<noteq> ErrNotFound \<and> cause err \<noteq> ErrInvalidID \<and> cause err \<noteq> ErrForbidden
            \<and> carried_status err = None \<longrightarrow>
            error_status (Products_AddSale products_AddSale web_Decode r)
              = Some StatusInternalServerError)
      \<and> (cause err = ErrNotFound \<longrightarrow>
            error_status (Products_AddSale products_AddSale web_Decode r) = Some StatusNotFound)
      \<and> (cause err = ErrInvalidID \<longrightarrow>
            error_status (Products_AddSale products_AddSale web_Decode r) = Some StatusBadRequest)
      \<and> (cause err = ErrForbidden \<longrightarrow>
            error_status (Products_AddSale products_AddSale web_Decode r) = Some StatusForbidden)"
      by (intro conjI, rule ret, rule carried_status_Wrap) (simp_all add: st Classify_by_cause)
  qed
  have l: "products_ListSales (url_id r) = Inl err \<longrightarrow>
      Products_ListSales products_ListSales r = Returned (errors_Wrap err ''getting sales list'')
      \<and> carried_status (errors_Wrap err ''getting sales list'') = carried_status err
      \<and> error_status (Products_ListSales products_ListSales r) = Some (Classify err)
      \<and> (cause err \<noteq> ErrNotFound \<and> cause err \<noteq> ErrInvalidID \<and> cause err \<noteq> ErrForbidden
            \<and> carried_status err = None \<longrightarrow>
            error_status (Products_ListSales products_ListSales r)
              = Some StatusInternalServerError)
      \<and> (cause err = ErrNotFound \<longrightarrow>
            error_status (Products_ListSales products_ListSales r) = Some StatusNotFound)
      \<and> (cause err = ErrInvalidID \<longrightarrow>
            error_status (Products_ListSales products_ListSales r) = Some StatusBadRequest)
      \<and> (cause err = ErrForbidden \<longrightarrow>
            error_status (Products_ListSales products_ListSales r) = Some StatusForbidden)"
  proof
    assume h: "products_ListSales (url_id r) = Inl err"
    have ret: "Products_ListSales products_ListSales r
        = Returned (errors_Wrap err ''getting sales list'')"
      using h by (simp add: Products_ListSales_def)
    have st: "error_status (Products_ListSales products_ListSales r) = Some (Classify err)"
      by (simp add: ret error_status_def Classify_Wrap)
    show "Products_ListSales products_ListSales r = Returned (errors_Wrap err ''getting sales list'')
      \<and> carried_status (errors_Wrap err ''getting sales list'') = carried_status err
      \<and> error_status (Products_ListSales products_ListSales r) = Some (Classify err)
      \<and> (cause err \<noteq> ErrNotFound \<and> cause err \<noteq> ErrInvalidID \<and> cause err \<noteq> ErrForbidden
            \<and> carried_status err = None \<longrightarrow>
            error_status (Products_ListSales products_ListSales r)
              = Some StatusInternalServerError)
      \<and> (cause err = ErrNotFound \<longrightarrow>
            error_status (Products_ListSales products_ListSales r) = Some StatusNotFound)
      \<and> (cause err = ErrInvalidID \<longrightarrow>
            error_status (Products_ListSales products_ListSales r) = Some StatusBadRequest)
      \<and> (cause err = ErrForbidden \<longrightarrow>
            error_status (Products_ListSales products_ListSales r) = Some StatusForbidden)"
      by (intro conjI, rule ret, rule carried_status_Wrap) (simp_all add: st Classify_by_cause)
  qed
  from a l show ?thesis by (rule conjI)
qed

theorem sales_errors_keep_their_classification_witness:
  "Products_AddSale (\<lambda>ns pid. (Inl (Fundamental ''pq: connection refused'') :: error + unit))
        (\<lambda>b. Inr ())
        \<lparr>url_id = ''72f8b983-3eb4-48db-9ed0-e45cc6bd716b'', ctx_claims = (None :: unit option),
         body = ''{}''\<rparr>
       = Returned (errors_Wrap (Fundamental ''pq: connection refused'') ''adding new sale'')
   \<and> error_status
        (Products_AddSale (\<lambda>ns pid. (Inl (Fundamental ''pq: connection refused'') :: error + unit))
           (\<lambda>b. Inr ())
           \<lparr>url_id = ''72f8b983-3eb4-48db-9ed0-e45cc6bd716b'', ctx_claims = (None :: unit option),
            body = ''{}''\<rparr>)
       = Some StatusInternalServerError
   \<and> error_status
        (Products_ListSales (\<lambda>pid. (Inl (Fundamental ''pq: connection refused'') :: error + unit))
           \<lparr>url_id = ''72f8b983-3eb4-48db-9ed0-e45cc6bd716b'', ctx_claims = (None :: unit option),
            body = ''{}''\<rparr>)
       = Some StatusInternalServerError
   \<and> error_status
        (Products_ListSales (\<lambda>pid. (Inl ErrNotFound :: error + unit))
           \<lparr>url_id = ''72f8b983-3eb4-48db-9ed0-e45cc6bd716b'', ctx_claims = (None :: unit option),
            body = ''{}''\<rparr>)
       = Some StatusNotFound"
  using
    sales_errors_keep_their_classification
      [where web_Decode = "\<lambda>b. Inr ()"
         and r = "\<lparr>url_id = ''72f8b983-3eb4-48db-9ed0-e45cc6bd716b'',
                   ctx_claims = (None :: unit option), body = ''{}''\<rparr>"
         and ns = "()" and err = "Fundamental ''pq: connection refused''"
         and products_AddSale = "\<lambda>ns pid. (Inl (Fundamental ''pq: connection refused'') :: error + unit)"
         and products_ListSales = "\<lambda>pid. (Inl (Fundamental ''pq: connection refused'') :: error + unit)"]
    sales_errors_keep_their_classification
      [where web_Decode = "\<lambda>b. Inr ()"
         and r = "\<lparr>url_id = ''72f8b983-3eb4-48db-9ed0-e45cc6bd716b'',
                   ctx_claims = (None :: unit option), body = ''{}''\<rparr>"
         and ns = "()" and err = ErrNotFound
         and products_AddSale = "\<lambda>ns pid. (Inl ErrNotFound :: error + unit)"
         and products_ListSales = "\<lambda>pid. (Inl ErrNotFound :: error + unit)"]
  by (simp add: Products_AddSale_def Products_ListSales_def error_status_def Classify_def
      errors_defs)

section \<open>Claims about the process\<close>

text \<open>
  C2. When the \<^verbatim>\<open>select\<close> statement receives a signal, the process calls
  \<^verbatim>\<open>server.Shutdown\<close> once, with a context of 15 seconds, and ends with status 0. When
  that call returns no error (the server drained within the 15 seconds), \<^verbatim>\<open>server.Close\<close>
  is not called. When it returns an error (the context's error once the deadline has
  passed, or an error of its own), \<^verbatim>\<open>server.Close\<close> is called exactly once.
\<close>

theorem graceful_then_forced:
  assumes "envconfig_Process env = Inr cfg" "flag_Parse env = Parsed False" "sqlx_Connect env = None"
    "select_receives env = Some (OsSignal sig)"
  shows "filter is_Shutdown (fst (main json_string env)) = [Shutdown (15 * 1000000000)]
    \<and> snd (main json_string env) = Exit 0
    \<and> (server_Shutdown env (15 * 1000000000) = None \<longrightarrow>
          occurrences Close (fst (main json_string env)) = 0)
    \<and> (server_Shutdown env (15 * 1000000000) \<noteq> None \<longrightarrow>
          occurrences Close (fst (main json_string env)) = 1)"
proof -
  from main_serving [OF assms(2) assms(1) assms(3)] assms(4) obtain u where
    m: "main json_string env =
      ([Connect u, ListenAndServe (Address (HTTP cfg)), Notify, Print ''startup complete'']
         @ shutting_down env @ [Print ''done'', Cancel, DB_Close], Exit 0)"
    by auto
  show ?thesis
  proof (cases "server_Shutdown env timeout")
    case None
    then show ?thesis
      using m by (simp add: shutting_down_graceful occurrences_def timeout_value)
  next
    case (Some err)
    then show ?thesis
      using m
      by (cases "server_Close env")
        (simp_all add: shutting_down_forced occurrences_def timeout_value)
  qed
qed

theorem graceful_then_forced_witness:
  "snd (main (\<lambda>s. CHR 0x22 # s @ [CHR 0x22])
      \<lparr>flag_Parse = Parsed False, envconfig_Process = Inr default_config, stdout_Encode = Written,
       sqlx_Connect = None, select_receives = Some (OsSignal SIGTERM),
       server_Shutdown = (\<lambda>t. if t < 2 * 1000000000 then Some ''context deadline exceeded'' else None),
       server_Close = None\<rparr>) = Exit 0
   \<and> occurrences Close (fst (main (\<lambda>s. CHR 0x22 # s @ [CHR 0x22])
      \<lparr>flag_Parse = Parsed False, envconfig_Process = Inr default_config, stdout_Encode = Written,
       sqlx_Connect = None, select_receives = Some (OsSignal SIGTERM),
       server_Shutdown = (\<lambda>t. if t < 2 * 1000000000 then Some ''context deadline exceeded'' else None),
       server_Close = None\<rparr>)) = 0
   \<and> filter is_Shutdown (fst (main (\<lambda>s. CHR 0x22 # s @ [CHR 0x22])
      \<lparr>flag_Parse = Parsed False, envconfig_Process = Inr default_config, stdout_Encode = Written,
       sqlx_Connect = None, select_receives = Some (OsSignal Interrupt),
       server_Shutdown = (\<lambda>t. if t < 60 * 1000000000 then Some ''context deadline exceeded'' else None),
       server_Close = None\<rparr>)) = [Shutdown (15 * 1000000000)]
   \<and> occurrences Close (fst (main (\<lambda>s. CHR 0x22 # s @ [CHR 0x22])
      \<lparr>flag_Parse = Parsed False, envconfig_Process = Inr default_config, stdout_Encode = Written,
       sqlx_Connect = None, select_receives = Some (OsSignal Interrupt),
       server_Shutdown = (\<lambda>t. if t < 60 * 1000000000 then Some ''context deadline exceeded'' else None),
       server_Close = None\<rparr>)) = 1"
  using
    graceful_then_forced
      [of "\<lparr>flag_Parse = Parsed False, envconfig_Process = Inr default_config, stdout_Encode = Written,
           sqlx_Connect = None, select_receives = Some (OsSignal SIGTERM),
           server_Shutdown = (\<lambda>t. if t < 2 * 1000000000 then Some ''context deadline exceeded'' else None),
           server_Close = None\<rparr>" default_config SIGTERM "\<lambda>s. CHR 0x22 # s @ [CHR 0x22]"]
    graceful_then_forced
      [of "\<lparr>flag_Parse = Parsed False, envconfig_Process = Inr default_config, stdout_Encode = Written,
           sqlx_Connect = None, select_receives = Some (OsSignal Interrupt),
           server_Shutdown = (\<lambda>t. if t < 60 * 1000000000 then Some ''context deadline exceeded'' else None),
           server_Close = None\<rparr>" default_config Interrupt "\<lambda>s. CHR 0x22 # s @ [CHR 0x22]"]
  by simp

text \<open>
  C7, as the claim states it: on every exit path the last line logged before the process
  exits is "done". When the \<^verbatim>\<open>select\<close> statement receives an error of the listener,
  \<^verbatim>\<open>log.Fatalf\<close> logs it and exits with status 1: "startup complete" and the failure are
  logged, "done" is not.
\<close>

theorem listener_error_exit_counterexample:
  "logged (fst (main (\<lambda>s. CHR 0x22 # s @ [CHR 0x22])
      \<lparr>flag_Parse = Parsed False, envconfig_Process = Inr default_config, stdout_Encode = Written,
       sqlx_Connect = None,
       select_receives = Some (ServerError ''listen tcp :8000: bind: address already in use''),
       server_Shutdown = (\<lambda>t. None), server_Close = None\<rparr>))
     = [''startup complete'',
        ''error: listening and serving: listen tcp :8000: bind: address already in use'']
   \<and> ''done'' \<notin> set (logged (fst (main (\<lambda>s. CHR 0x22 # s @ [CHR 0x22])
      \<lparr>flag_Parse = Parsed False, envconfig_Process = Inr default_config, stdout_Encode = Written,
       sqlx_Connect = None,
       select_receives = Some (ServerError ''listen tcp :8000: bind: address already in use''),
       server_Shutdown = (\<lambda>t. None), server_Close = None\<rparr>)))
   \<and> snd (main (\<lambda>s. CHR 0x22 # s @ [CHR 0x22])
      \<lparr>flag_Parse = Parsed False, envconfig_Process = Inr default_config, stdout_Encode = Written,
       sqlx_Connect = None,
       select_receives = Some (ServerError ''listen tcp :8000: bind: address already in use''),
       server_Shutdown = (\<lambda>t. None), server_Close = None\<rparr>) = Exit 1"
  by (simp add: main_def default_config_def)

text \<open>
  C7, as amended: on the exit path of a signal the process logs "startup complete", then
  "caught signal, shutting down", and "done" is its last line; only the deferred calls
  follow, and the status is 0. "done" is logged on no other path. On an error of the
  listener the process logs "startup complete" and then the failure "error: listening and
  serving: ..." and exits with status 1. The exits before serving log neither "startup
  complete" nor "done": a failure to parse the configuration, to connect to the database,
  or of the \<^verbatim>\<open>-config-only\<close> write that returns an error logs its failure line and exits
  with status 1; \<^verbatim>\<open>-config-only\<close> logs nothing when the write succeeds (status 0) or when
  SIGPIPE kills the process on a closed standard output; and \<^verbatim>\<open>flag.Parse\<close> logs nothing
  when it exits for \<^verbatim>\<open>-h\<close> (status 0) or for arguments it cannot parse (status 2).
\<close>

theorem log_lines_by_exit_path:
  "(flag_Parse env = Parsed False \<and> envconfig_Process env = Inr cfg \<and> sqlx_Connect env = None
      \<and> select_receives env = Some (OsSignal sig) \<longrightarrow>
        take 2 (logged (fst (main json_string env)))
          = [''startup complete'', ''caught signal, shutting down'']
        \<and> last (logged (fst (main json_string env))) = ''done''
        \<and> (\<exists>before. fst (main json_string env) = before @ [Print ''done'', Cancel, DB_Close])
        \<and> snd (main json_string env) = Exit 0)
   \<and> (flag_Parse env = Parsed False \<and> envconfig_Process env = Inr cfg \<and> sqlx_Connect env = None
      \<and> select_receives env = Some (ServerError err) \<longrightarrow>
        logged (fst (main json_string env))
          = [''startup complete'', ''error: listening and serving: '' @ err]
        \<and> snd (main json_string env) = Exit 1)
   \<and> (flag_Parse env = Parsed False \<and> envconfig_Process env = Inr cfg
      \<and> sqlx_Connect env = Some err \<longrightarrow>
        logged (fst (main json_string env)) = [''error: connecting to db: '' @ err]
        \<and> snd (main json_string env) = Exit 1)
   \<and> (flag_Parse env = Parsed True \<and> envconfig_Process env = Inr cfg
      \<and> stdout_Encode env = Written \<longrightarrow>
        logged (fst (main json_string env)) = []
        \<and> snd (main json_string env) = Exit 0)
   \<and> (flag_Parse env = Parsed True \<and> envconfig_Process env = Inr cfg
      \<and> stdout_Encode env = Write_error n err \<longrightarrow>
        logged (fst (main json_string env)) = [''error: encoding config as json: '' @ err]
        \<and> snd (main json_string env) = Exit 1)
   \<and> (flag_Parse env = Parsed True \<and> envconfig_Process env = Inr cfg
      \<and> stdout_Encode env = Broken_pipe n \<longrightarrow>
        logged (fst (main json_string env)) = []
        \<and> snd (main json_string env) = Killed)
   \<and> (flag_Parse env = Parsed configOnly \<and> envconfig_Process env = Inl err \<longrightarrow>
        logged (fst (main json_string env)) = [''error: parsing config: '' @ err]
        \<and> snd (main json_string env) = Exit 1)
   \<and> (flag_Parse env = Help \<longrightarrow>
        logged (fst (main json_string env)) = []
        \<and> snd (main json_string env) = Exit 0)
   \<and> (flag_Parse env = Bad_flag message \<longrightarrow>
        logged (fst (main json_string env)) = []
        \<and> snd (main json_string env) = Exit 2)
   \<and> (''done'' \<in> set (logged (fst (main json_string env))) \<longrightarrow>
        flag_Parse env = Parsed False \<and> sqlx_Connect env = None
        \<and> (\<exists>c. envconfig_Process env = Inr c) \<and> (\<exists>s. select_receives env = Some (OsSignal s)))"
proof -
  have signal: "take 2 (logged (fst (main json_string env)))
          = [''startup complete'', ''caught signal, shutting down'']
        \<and> last (logged (fst (main json_string env))) = ''done''
        \<and> (\<exists>before. fst (main json_string env) = before @ [Print ''done'', Cancel, DB_Close])
        \<and> snd (main json_string env) = Exit 0"
    if "flag_Parse env = Parsed False" "envconfig_Process env = Inr cfg" "sqlx_Connect env = None"
       "select_receives env = Some (OsSignal sig)"
  proof -
    from main_serving [OF that(1-3), of json_string] that(4) obtain u where
      m: "main json_string env =
        ([Connect u, ListenAndServe (Address (HTTP cfg)), Notify, Print ''startup complete'']
           @ shutting_down env @ [Print ''done'', Cancel, DB_Close], Exit 0)"
      by auto
    obtain lines where l: "logged (shutting_down env) = ''caught signal, shutting down'' # lines"
      using shutting_down_first_line by blast
    have lg: "logged (fst (main json_string env)) =
        ''startup complete'' # ''caught signal, shutting down'' # lines @ [''done'']"
      by (simp add: m logged_append l)
    have t: "take 2 (logged (fst (main json_string env)))
          = [''startup complete'', ''caught signal, shutting down'']"
      by (simp only: lg numeral_2_eq_2 take_Suc_Cons take_0)
    have la: "last (logged (fst (main json_string env))) = ''done''"
      by (simp add: lg)
    have f: "fst (main json_string env) =
        ([Connect u, ListenAndServe (Address (HTTP cfg)), Notify, Print ''startup complete'']
           @ shutting_down env) @ [Print ''done'', Cancel, DB_Close]"
      by (simp add: m)
    have e: "\<exists>before. fst (main json_string env) = before @ [Print ''done'', Cancel, DB_Close]"
      by (rule exI [of _ "[Connect u, ListenAndServe (Address (HTTP cfg)), Notify,
            Print ''startup complete''] @ shutting_down env"]) (rule f)
    have s: "snd (main json_string env) = Exit 0"
      by (simp add: m)
    from t la e s show ?thesis by (intro conjI)
  qed
  have listener: "logged (fst (main json_string env))
          = [''startup complete'', ''error: listening and serving: '' @ err]
        \<and> snd (main json_string env) = Exit 1"
    if "flag_Parse env = Parsed False" "envconfig_Process env = Inr cfg" "sqlx_Connect env = None"
       "select_receives env = Some (ServerError err)"
    using main_serving [OF that(1-3), of json_string] that(4) by auto
  have connect: "logged (fst (main json_string env)) = [''error: connecting to db: '' @ err]
        \<and> snd (main json_string env) = Exit 1"
    if "flag_Parse env = Parsed False" "envconfig_Process env = Inr cfg"
       "sqlx_Connect env = Some err"
    using that by (simp add: main_def Let_def)
  have only: "logged (fst (main json_string env)) = [] \<and> snd (main json_string env) = Exit 0"
    if "flag_Parse env = Parsed True" "envconfig_Process env = Inr cfg"
       "stdout_Encode env = Written"
    using that by (simp add: main_def)
  have encode: "logged (fst (main json_string env)) = [''error: encoding config as json: '' @ err]
        \<and> snd (main json_string env) = Exit 1"
    if "flag_Parse env = Parsed True" "envconfig_Process env = Inr cfg"
       "stdout_Encode env = Write_error n err"
    using that by (simp add: main_def)
  have pipe: "logged (fst (main json_string env)) = [] \<and> snd (main json_string env) = Killed"
    if "flag_Parse env = Parsed True" "envconfig_Process env = Inr cfg"
       "stdout_Encode env = Broken_pipe n"
    using that by (simp add: main_def)
  have parse: "logged (fst (main json_string env)) = [''error: parsing config: '' @ err]
        \<and> snd (main json_string env) = Exit 1"
    if "flag_Parse env = Parsed configOnly" "envconfig_Process env = Inl err"
    using that by (simp add: main_def)
  have asked_help: "logged (fst (main json_string env)) = [] \<and> snd (main json_string env) = Exit 0"
    if "flag_Parse env = Help"
    using that by (simp add: main_def logged_flag_Usage)
  have bad: "logged (fst (main json_string env)) = [] \<and> snd (main json_string env) = Exit 2"
    if "flag_Parse env = Bad_flag message"
    using that by (simp add: main_def logged_flag_Usage)
  have only_signal: "flag_Parse env = Parsed False \<and> sqlx_Connect env = None
        \<and> (\<exists>c. envconfig_Process env = Inr c) \<and> (\<exists>s. select_receives env = Some (OsSignal s))"
    if d: "''done'' \<in> set (logged (fst (main json_string env)))"
  proof (cases "flag_Parse env")
    case Help
    with d show ?thesis by (simp add: main_def logged_flag_Usage)
  next
    case (Bad_flag m)
    with d show ?thesis by (simp add: main_def logged_flag_Usage)
  next
    case (Parsed configOnly)
    show ?thesis
    proof (cases "envconfig_Process env")
      case (Inl e)
      with d Parsed show ?thesis by (simp add: main_def)
    next
      case (Inr c)
      show ?thesis
      proof (cases configOnly)
        case True
        with d Parsed Inr show ?thesis
          by (cases "stdout_Encode env") (simp_all add: main_def)
      next
        case False
        show ?thesis
        proof (cases "sqlx_Connect env")
          case (Some e)
          with d Parsed Inr False show ?thesis by (simp add: main_def Let_def)
        next
          case None
          show ?thesis
          proof (cases "select_receives env")
            case nothing: None
            with d Parsed Inr False None show ?thesis by (simp add: main_def Let_def)
          next
            case (Some ev)
            show ?thesis
            proof (cases ev)
              case (ServerError e)
              with d Parsed Inr False None Some show ?thesis by (simp add: main_def Let_def)
            next
              case (OsSignal s)
              with Parsed Inr False None Some show ?thesis by simp
            qed
          qed
        qed
      qed
    qed
  qed
  from signal listener connect only encode pipe parse asked_help bad only_signal show ?thesis by blast
qed

theorem log_lines_by_exit_path_witness:
  "logged (fst (main (\<lambda>s. CHR 0x22 # s @ [CHR 0x22])
      \<lparr>flag_Parse = Parsed False, envconfig_Process = Inr default_config, stdout_Encode = Written,
       sqlx_Connect = None, select_receives = Some (OsSignal SIGTERM),
       server_Shutdown = (\<lambda>t. if t < 60 * 1000000000 then Some ''context deadline exceeded'' else None), server_Close = None\<rparr>))
     = [''startup complete'', ''caught signal, shutting down'',
        ''error: gracefully shutting down server: context deadline exceeded'', ''done'']
   \<and> snd (main (\<lambda>s. CHR 0x22 # s @ [CHR 0x22])
      \<lparr>flag_Parse = Parsed False, envconfig_Process = Inr default_config, stdout_Encode = Written,
       sqlx_Connect = None, select_receives = Some (OsSignal SIGTERM),
       server_Shutdown = (\<lambda>t. if t < 60 * 1000000000 then Some ''context deadline exceeded'' else None), server_Close = None\<rparr>) = Exit 0
   \<and> ''done'' \<in> set (logged (fst (main (\<lambda>s. CHR 0x22 # s @ [CHR 0x22])
      \<lparr>flag_Parse = Parsed False, envconfig_Process = Inr default_config, stdout_Encode = Written,
       sqlx_Connect = None, select_receives = Some (OsSignal SIGTERM),
       server_Shutdown = (\<lambda>t. if t < 60 * 1000000000 then Some ''context deadline exceeded'' else None), server_Close = None\<rparr>)))
   \<and> logged (fst (main (\<lambda>s. CHR 0x22 # s @ [CHR 0x22])
      \<lparr>flag_Parse = Parsed False, envconfig_Process = Inr default_config, stdout_Encode = Written,
       sqlx_Connect = None, select_receives = Some (ServerError ''accept tcp: too many open files''),
       server_Shutdown = (\<lambda>t. None), server_Close = None\<rparr>))
     = [''startup complete'', ''error: listening and serving: accept tcp: too many open files'']
   \<and> snd (main (\<lambda>s. CHR 0x22 # s @ [CHR 0x22])
      \<lparr>flag_Parse = Parsed False, envconfig_Process = Inr default_config, stdout_Encode = Written,
       sqlx_Connect = None, select_receives = Some (ServerError ''accept tcp: too many open files''),
       server_Shutdown = (\<lambda>t. None), server_Close = None\<rparr>) = Exit 1
   \<and> main (\<lambda>s. CHR 0x22 # s @ [CHR 0x22])
      \<lparr>flag_Parse = Parsed False, envconfig_Process = Inr default_config, stdout_Encode = Written,
       sqlx_Connect = Some ''dial tcp 127.0.0.1:5432: connect: connection refused'', select_receives = None,
       server_Shutdown = (\<lambda>t. None), server_Close = None\<rparr>
     = ([Connect (URL ''postgres'' (''postgres'', ''postgres'') ''localhost'' ''postgres''
           [(''sslmode'', [''require'']), (''timezone'', [''utc''])]),
         Fatalf ''error: connecting to db: dial tcp 127.0.0.1:5432: connect: connection refused''],
        Exit 1)
   \<and> logged (fst (main (\<lambda>s. CHR 0x22 # s @ [CHR 0x22])
      \<lparr>flag_Parse = Parsed True, envconfig_Process = Inr default_config, stdout_Encode = Written,
       sqlx_Connect = None, select_receives = None,
       server_Shutdown = (\<lambda>t. None), server_Close = None\<rparr>)) = []
   \<and> snd (main (\<lambda>s. CHR 0x22 # s @ [CHR 0x22])
      \<lparr>flag_Parse = Parsed True, envconfig_Process = Inr default_config, stdout_Encode = Written,
       sqlx_Connect = None, select_receives = None,
       server_Shutdown = (\<lambda>t. None), server_Close = None\<rparr>) = Exit 0
   \<and> main (\<lambda>s. CHR 0x22 # s @ [CHR 0x22])
      \<lparr>flag_Parse = Parsed True, envconfig_Process = Inr default_config, stdout_Encode = Write_error 0 ''write /dev/stdout: no space left on device'',
       sqlx_Connect = None, select_receives = None,
       server_Shutdown = (\<lambda>t. None), server_Close = None\<rparr>
     = ([Stdout [], Fatalf ''error: encoding config as json: write /dev/stdout: no space left on device''],
        Exit 1)
   \<and> main (\<lambda>s. CHR 0x22 # s @ [CHR 0x22])
      \<lparr>flag_Parse = Parsed True, envconfig_Process = Inr default_config, stdout_Encode = Broken_pipe 0,
       sqlx_Connect = None, select_receives = None,
       server_Shutdown = (\<lambda>t. None), server_Close = None\<rparr> = ([Stdout []], Killed)
   \<and> main (\<lambda>s. CHR 0x22 # s @ [CHR 0x22])
      \<lparr>flag_Parse = Parsed False, envconfig_Process = Inl ''strconv.ParseBool: invalid syntax'', stdout_Encode = Written,
       sqlx_Connect = None, select_receives = None,
       server_Shutdown = (\<lambda>t. None), server_Close = None\<rparr>
     = ([Fatalf ''error: parsing config: strconv.ParseBool: invalid syntax''], Exit 1)
   \<and> main (\<lambda>s. CHR 0x22 # s @ [CHR 0x22])
      \<lparr>flag_Parse = Help, envconfig_Process = Inr default_config, stdout_Encode = Written,
       sqlx_Connect = None, select_receives = None,
       server_Shutdown = (\<lambda>t. None), server_Close = None\<rparr> = (flag_Usage, Exit 0)
   \<and> logged (fst (main (\<lambda>s. CHR 0x22 # s @ [CHR 0x22])
      \<lparr>flag_Parse = Help, envconfig_Process = Inr default_config, stdout_Encode = Written,
       sqlx_Connect = None, select_receives = None,
       server_Shutdown = (\<lambda>t. None), server_Close = None\<rparr>)) = []
   \<and> main (\<lambda>s. CHR 0x22 # s @ [CHR 0x22])
      \<lparr>flag_Parse = Bad_flag ''flag provided but not defined: -verbose'', envconfig_Process = Inr default_config, stdout_Encode = Written,
       sqlx_Connect = None, select_receives = None,
       server_Shutdown = (\<lambda>t. None), server_Close = None\<rparr>
     = (Flag_error ''flag provided but not defined: -verbose'' # flag_Usage, Exit 2)
   \<and> logged (fst (main (\<lambda>s. CHR 0x22 # s @ [CHR 0x22])
      \<lparr>flag_Parse = Bad_flag ''flag provided but not defined: -verbose'', envconfig_Process = Inr default_config, stdout_Encode = Written,
       sqlx_Connect = None, select_receives = None,
       server_Shutdown = (\<lambda>t. None), server_Close = None\<rparr>)) = []"
  using
    log_lines_by_exit_path
      [where env = "\<lparr>flag_Parse = Parsed False, envconfig_Process = Inr default_config, stdout_Encode = Written,
           sqlx_Connect = None, select_receives = Some (OsSignal SIGTERM),
           server_Shutdown = (\<lambda>t. if t < 60 * 1000000000 then Some ''context deadline exceeded'' else None), server_Close = None\<rparr>"
         and json_string = "\<lambda>s. CHR 0x22 # s @ [CHR 0x22]"
         and cfg = default_config
         and sig = SIGTERM]
    log_lines_by_exit_path
      [where env = "\<lparr>flag_Parse = Parsed False, envconfig_Process = Inr default_config, stdout_Encode = Written,
           sqlx_Connect = None, select_receives = Some (ServerError ''accept tcp: too many open files''),
           server_Shutdown = (\<lambda>t. None), server_Close = None\<rparr>"
         and json_string = "\<lambda>s. CHR 0x22 # s @ [CHR 0x22]"
         and cfg = default_config
         and err = "''accept tcp: too many open files''"]
    log_lines_by_exit_path
      [where env = "\<lparr>flag_Parse = Parsed False, envconfig_Process = Inr default_config, stdout_Encode = Written,
           sqlx_Connect = Some ''dial tcp 127.0.0.1:5432: connect: connection refused'', select_receives = None,
           server_Shutdown = (\<lambda>t. None), server_Close = None\<rparr>"
         and json_string = "\<lambda>s. CHR 0x22 # s @ [CHR 0x22]"
         and cfg = default_config
         and err = "''dial tcp 127.0.0.1:5432: connect: connection refused''"]
    log_lines_by_exit_path
      [where env = "\<lparr>flag_Parse = Parsed True, envconfig_Process = Inr default_config, stdout_Encode = Written,
           sqlx_Connect = None, select_receives = None,
           server_Shutdown = (\<lambda>t. None), server_Close = None\<rparr>"
         and json_string = "\<lambda>s. CHR 0x22 # s @ [CHR 0x22]"
         and cfg = default_config]
    log_lines_by_exit_path
      [where env = "\<lparr>flag_Parse = Parsed True, envconfig_Process = Inr default_config, stdout_Encode = Write_error 0 ''write /dev/stdout: no space left on device'',
           sqlx_Connect = None, select_receives = None,
           server_Shutdown = (\<lambda>t. None), server_Close = None\<rparr>"
         and json_string = "\<lambda>s. CHR 0x22 # s @ [CHR 0x22]"
         and cfg = default_config
         and n = 0
         and err = "''write /dev/stdout: no space left on device''"]
    log_lines_by_exit_path
      [where env = "\<lparr>flag_Parse = Parsed True, envconfig_Process = Inr default_config, stdout_Encode = Broken_pipe 0,
           sqlx_Connect = None, select_receives = None,
           server_Shutdown = (\<lambda>t. None), server_Close = None\<rparr>"
         and json_string = "\<lambda>s. CHR 0x22 # s @ [CHR 0x22]"
         and cfg = default_config
         and n = 0]
    log_lines_by_exit_path
      [where env = "\<lparr>flag_Parse = Parsed False, envconfig_Process = Inl ''strconv.ParseBool: invalid syntax'', stdout_Encode = Written,
           sqlx_Connect = None, select_receives = None,
           server_Shutdown = (\<lambda>t. None), server_Close = None\<rparr>"
         and json_string = "\<lambda>s. CHR 0x22 # s @ [CHR 0x22]"
         and configOnly = False
         and err = "''strconv.ParseBool: invalid syntax''"]
    log_lines_by_exit_path
      [where env = "\<lparr>flag_Parse = Help, envconfig_Process = Inr default_config, stdout_Encode = Written,
           sqlx_Connect = None, select_receives = None,
           server_Shutdown = (\<lambda>t. None), server_Close = None\<rparr>"
         and json_string = "\<lambda>s. CHR 0x22 # s @ [CHR 0x22]"]
    log_lines_by_exit_path
      [where env = "\<lparr>flag_Parse = Bad_flag ''flag provided but not defined: -verbose'', envconfig_Process = Inr default_config, stdout_Encode = Written,
           sqlx_Connect = None, select_receives = None,
           server_Shutdown = (\<lambda>t. None), server_Close = None\<rparr>"
         and json_string = "\<lambda>s. CHR 0x22 # s @ [CHR 0x22]"
         and message = "''flag provided but not defined: -verbose''"]
  by (simp add: main_def shutting_down_def default_config_def timeout_def Second_def
      logged_flag_Usage)

text \<open>
  C10. The JSON text of a configuration does not depend on its password, and with
  \<^verbatim>\<open>-config-only\<close> neither does anything the process does: two configurations that differ
  in the password only give the same run. What reaches standard output is the JSON text,
  or a prefix of it when the write fails.
\<close>

theorem config_only_hides_password:
  "json_Encode json_string (cfg\<lparr>DB := (DB cfg)\<lparr>Password := password\<rparr>\<rparr>) = json_Encode json_string cfg
   \<and> (flag_Parse env = Parsed True \<and> envconfig_Process env = Inr cfg \<longrightarrow>
        main json_string (env\<lparr>envconfig_Process := Inr (cfg\<lparr>DB := (DB cfg)\<lparr>Password := password\<rparr>\<rparr>)\<rparr>)
          = main json_string env
        \<and> (\<exists>n. written (fst (main json_string env)) = take n (json_Encode json_string cfg))
        \<and> (stdout_Encode env = Written \<longrightarrow>
              written (fst (main json_string env)) = json_Encode json_string cfg))"
proof -
  have enc: "json_Encode json_string (cfg\<lparr>DB := (DB cfg)\<lparr>Password := password\<rparr>\<rparr>)
      = json_Encode json_string cfg"
    by (simp add: json_Encode_def)
  have same: "main json_string (env\<lparr>envconfig_Process := Inr (cfg\<lparr>DB := (DB cfg)\<lparr>Password := password\<rparr>\<rparr>)\<rparr>)
          = main json_string env"
    if "flag_Parse env = Parsed True" "envconfig_Process env = Inr cfg"
    using that by (simp add: main_def enc split: stdout_write.splits)
  have out: "\<exists>n. written (fst (main json_string env)) = take n (json_Encode json_string cfg)"
    if "flag_Parse env = Parsed True" "envconfig_Process env = Inr cfg"
  proof (cases "stdout_Encode env")
    case Written
    then have "written (fst (main json_string env)) =
        take (length (json_Encode json_string cfg)) (json_Encode json_string cfg)"
      using that by (simp add: main_def written_def)
    then show ?thesis by blast
  next
    case (Write_error n err)
    then have "written (fst (main json_string env)) = take n (json_Encode json_string cfg)"
      using that by (simp add: main_def written_def)
    then show ?thesis by blast
  next
    case (Broken_pipe n)
    then have "written (fst (main json_string env)) = take n (json_Encode json_string cfg)"
      using that by (simp add: main_def written_def)
    then show ?thesis by blast
  qed
  have full: "written (fst (main json_string env)) = json_Encode json_string cfg"
    if "flag_Parse env = Parsed True" "envconfig_Process env = Inr cfg"
       "stdout_Encode env = Written"
    using that by (simp add: main_def written_def)
  from enc same out full show ?thesis by blast
qed

theorem config_only_hides_password_witness:
  \<open>main (\<lambda>s. CHR 0x22 # s @ [CHR 0x22])
      \<lparr>flag_Parse = Parsed True,
       envconfig_Process = Inr (default_config\<lparr>DB := (DB default_config)\<lparr>Password := ''hunter2''\<rparr>\<rparr>),
       stdout_Encode = Written, sqlx_Connect = None, select_receives = None,
       server_Shutdown = (\<lambda>t. None), server_Close = None\<rparr>
     = main (\<lambda>s. CHR 0x22 # s @ [CHR 0x22])
      \<lparr>flag_Parse = Parsed True, envconfig_Process = Inr default_config,
       stdout_Encode = Written, sqlx_Connect = None, select_receives = None,
       server_Shutdown = (\<lambda>t. None), server_Close = None\<rparr>
   \<and> written (fst (main (\<lambda>s. CHR 0x22 # s @ [CHR 0x22])
      \<lparr>flag_Parse = Parsed True, envconfig_Process = Inr default_config,
       stdout_Encode = Written, sqlx_Connect = None, select_receives = None,
       server_Shutdown = (\<lambda>t. None), server_Close = None\<rparr>))
     = ''{"DB":{"User":"postgres","Host":"localhost","Name":"postgres","DisableTLS":false},"HTTP":{"Address":":8000"}}''
         @ [CHR 0x0A]\<close>
  using
    config_only_hides_password
      [where json_string = "\<lambda>s. CHR 0x22 # s @ [CHR 0x22]" and cfg = default_config
         and password = "''hunter2''"
         and env = "\<lparr>flag_Parse = Parsed True, envconfig_Process = Inr default_config,
            stdout_Encode = Written, sqlx_Connect = None, select_receives = None,
            server_Shutdown = (\<lambda>t. None), server_Close = None\<rparr>"]
  by (simp add: json_Encode_def json_bool_def default_config_def)

text \<open>
  C6. In every run from the \<^verbatim>\<open>select\<close> statement on, whatever the schedule, the main
  goroutine receives from the channels at most once: nothing while it waits, and exactly
  one trigger from the moment it has left the \<^verbatim>\<open>select\<close> statement, so exactly one when
  the process has exited. What arrives after that (a second signal, the error of the
  listener) changes neither the place of the main goroutine nor its trace nor what it has
  received: the run goes on as the run without those deliveries does.
\<close>

theorem one_trigger_first_wins:
  "length (received (run env serving ms)) \<le> 1
   \<and> (place (run env serving ms) = Exited status \<longrightarrow>
        length (received (run env serving ms)) = 1)
   \<and> (place (run env serving ms) \<noteq> At_select \<longrightarrow>
        length (received (run env serving ms)) = 1
        \<and> progress (run env serving (ms @ later))
            = progress (run env serving (ms @ filter is_Main later)))"
proof -
  have inv: "(place (run env serving ms) = At_select \<longrightarrow> received (run env serving ms) = [])
    \<and> (place (run env serving ms) \<noteq> At_select \<longrightarrow> length (received (run env serving ms)) = 1)"
    by (rule run_received) (simp_all add: serving_def)
  then have le: "length (received (run env serving ms)) \<le> 1"
    by (cases "place (run env serving ms) = At_select") simp_all
  have exited: "length (received (run env serving ms)) = 1"
    if "place (run env serving ms) = Exited status"
    using inv that by simp
  have later: "progress (run env serving (ms @ later))
      = progress (run env serving (ms @ filter is_Main later))"
    if "place (run env serving ms) \<noteq> At_select"
    using run_after_select [OF that refl, of env later] by (simp add: run_append)
  from inv le exited later show ?thesis by blast
qed

theorem one_trigger_first_wins_witness:
  "length (received (run
      \<lparr>flag_Parse = Parsed False, envconfig_Process = Inr default_config, stdout_Encode = Written,
       sqlx_Connect = None, select_receives = Some (OsSignal SIGTERM),
       server_Shutdown = (\<lambda>t. None), server_Close = None\<rparr>
      serving ([Deliver SIGTERM, Main False] @
        [Deliver Interrupt, Serve_returns ''http: Server closed'', Main True, Deliver SIGTERM,
         Main False]))) = 1
   \<and> place (run
      \<lparr>flag_Parse = Parsed False, envconfig_Process = Inr default_config, stdout_Encode = Written,
       sqlx_Connect = None, select_receives = Some (OsSignal SIGTERM),
       server_Shutdown = (\<lambda>t. None), server_Close = None\<rparr>
      serving [Deliver SIGTERM, Main False]) = In_Shutdown
   \<and> received (run
      \<lparr>flag_Parse = Parsed False, envconfig_Process = Inr default_config, stdout_Encode = Written,
       sqlx_Connect = None, select_receives = Some (OsSignal SIGTERM),
       server_Shutdown = (\<lambda>t. None), server_Close = None\<rparr>
      serving [Deliver SIGTERM, Main False]) = [OsSignal SIGTERM]
   \<and> progress (run
      \<lparr>flag_Parse = Parsed False, envconfig_Process = Inr default_config, stdout_Encode = Written,
       sqlx_Connect = None, select_receives = Some (OsSignal SIGTERM),
       server_Shutdown = (\<lambda>t. None), server_Close = None\<rparr>
      serving ([Deliver SIGTERM, Main False] @
        [Deliver Interrupt, Serve_returns ''http: Server closed'', Main True, Deliver SIGTERM,
         Main False]))
     = (Exited 0, [OsSignal SIGTERM],
        [Print ''startup complete'', Print ''caught signal, shutting down'',
         Shutdown (15 * 1000000000), Print ''done'', Cancel, DB_Close])
   \<and> progress (run
      \<lparr>flag_Parse = Parsed False, envconfig_Process = Inr default_config, stdout_Encode = Written,
       sqlx_Connect = None, select_receives = Some (OsSignal SIGTERM),
       server_Shutdown = (\<lambda>t. None), server_Close = None\<rparr>
      serving ([Deliver SIGTERM, Main False] @ [Main True, Main False]))
     = (Exited 0, [OsSignal SIGTERM],
        [Print ''startup complete'', Print ''caught signal, shutting down'',
         Shutdown (15 * 1000000000), Print ''done'', Cancel, DB_Close])"
  using
    one_trigger_first_wins
      [where env = "\<lparr>flag_Parse = Parsed False, envconfig_Process = Inr default_config,
           stdout_Encode = Written, sqlx_Connect = None, select_receives = Some (OsSignal SIGTERM),
           server_Shutdown = (\<lambda>t. None), server_Close = None\<rparr>"
         and ms = "[Deliver SIGTERM, Main False] @
           [Deliver Interrupt, Serve_returns ''http: Server closed'', Main True, Deliver SIGTERM,
            Main False]"
         and later = "[]" and status = 0]
    one_trigger_first_wins
      [where env = "\<lparr>flag_Parse = Parsed False, envconfig_Process = Inr default_config,
           stdout_Encode = Written, sqlx_Connect = None, select_receives = Some (OsSignal SIGTERM),
           server_Shutdown = (\<lambda>t. None), server_Close = None\<rparr>"
         and ms = "[Deliver SIGTERM, Main False]"
         and later = "[Deliver Interrupt, Serve_returns ''http: Server closed'', Main True,
           Deliver SIGTERM, Main False]"
         and status = 0]
  by (simp add: run_def step_def main_step_def serving_def progress_def timeout_def Second_def)
end
